theory Spec2Isabelle
  imports Complex_Main
begin

section \<open>Values, records and the store\<close>

text \<open>
  The backend is a set of Express route handlers over a Prisma store, an OpenAI client
  and a Stripe client. A handler is modelled as a function from the request, the store
  and the answers of the outside world (clock readings, token verification, provider
  replies, storage faults) to a response and the store afterwards.

  Response bodies are JSON values, written as the handlers build them. \<open>JToFixed c n\<close>
  stands for \<open>c.toFixed(n)\<close>, \<open>JLocalDate y m d\<close> for \<open>new Date(y, m, d)\<close>.
  Human-readable messages of the Romanian handlers are written without diacritics.

  Modelled are the two generation routes with their middlewares and the Stripe webhook
  with its five handlers. The prompt text is not modelled: it only reaches the provider,
  whose outcome is an answer of the outside world.
\<close>

datatype json =
    JNull
  | JBool bool
  | JNum int
  | JStr string
  | JToFixed rat nat
  | JLocalDate int int int
  | JArr "json list"
  | JObj "(string \<times> json) list"

record response =
  status :: nat
  body :: json

text \<open>\<open>res.json(b)\<close> answers with status 200.\<close>

definition res_json :: "json \<Rightarrow> response" where
  "res_json b = \<lparr>status = 200, body = b\<rparr>"

subsection \<open>JavaScript numbers\<close>

text \<open>A JavaScript number is an IEEE 754 double. A finite double is a rational number;
  \<open>double x\<close> is the double nearest to the rational \<open>x\<close>, ties going to the even
  significand, which is the result of an arithmetic operation whose exact result is
  \<open>x\<close> and of reading the decimal literal \<open>x\<close>. The numbers the handlers compute are
  far from the overflow and subnormal ranges, which are not modelled. Integers below
  \<open>2 ^ 53\<close> in absolute value are doubles.\<close>

function bitLength :: "int \<Rightarrow> int" where
  "bitLength n = (if n \<le> 0 then 0 else bitLength (n div 2) + 1)"
  by pat_completeness auto
termination
  by (relation "measure nat") auto

definition pow2 :: "int \<Rightarrow> rat" where
  "pow2 k = (if k \<ge> 0 then 2 ^ nat k else 1 / 2 ^ nat (- k))"

text \<open>For \<open>a > 0\<close>, the \<open>k\<close> with \<open>2 ^ k \<le> a < 2 ^ (k + 1)\<close>.\<close>

definition binaryExponent :: "rat \<Rightarrow> int" where
  "binaryExponent a =
     (let (p, q) = quotient_of a;
          k = bitLength p - bitLength q
      in if pow2 k \<le> a then k else k - 1)"

definition roundHalfEven :: "rat \<Rightarrow> int" where
  "roundHalfEven m =
     (let f = \<lfloor>m\<rfloor>; d = m - of_int f
      in if d < 1 / 2 then f else if d > 1 / 2 then f + 1 else if even f then f else f + 1)"

definition double :: "rat \<Rightarrow> rat" where
  "double x =
     (if x = 0 then 0
      else (let k = binaryExponent \<bar>x\<bar> - 52
            in sgn x * of_int (roundHalfEven (\<bar>x\<bar> / pow2 k)) * pow2 k))"

text \<open>\<open>Math.round(y)\<close>: the nearest integer, a tie going up.\<close>

definition mathRound :: "rat \<Rightarrow> int" where
  "mathRound y = \<lfloor>y + 1 / 2\<rfloor>"

text \<open>\<open>inputTokens * 0.00003 + outputTokens * 0.00006\<close>.\<close>

definition costOf :: "int \<Rightarrow> int \<Rightarrow> rat" where
  "costOf inputTokens outputTokens =
     double (double (of_int inputTokens * double (3 / 100000))
             + double (of_int outputTokens * double (6 / 100000)))"

text \<open>A thrown JavaScript error, as far as the handlers read it: \<open>error.code\<close> and
  \<open>error.message\<close>.\<close>

record js_error =
  code :: "string option"
  message :: string

text \<open>The \<open>User\<close> rows, with the columns the modelled handlers read or write. A date
  column is the number of milliseconds since the epoch, or null.\<close>

record user =
  user_id :: string
  isActive :: bool
  subscriptionPlan :: string
  subscriptionStatus :: string
  subscriptionExpiresAt :: "int option"
  monthlyLimit :: int
  stripeCustomerId :: "string option"
  stripeSubscriptionId :: "string option"

record apiCall =
  userId :: string
  reviewText :: string
  responseText :: string
  language :: string
  tone :: string
  model :: string
  businessType :: "string option"
  tokensUsed :: int
  cost :: rat
  duration :: int
  success :: bool
  errorMessage :: "string option"

text \<open>Every call to the store or to Stripe, by call site. The store keeps the list of
  calls made (\<open>oplog\<close>), so that "no lookup was made" is a statement about the store.\<close>

datatype op =
    UserFindUnique
  | UserFindFirst
  | UserUpdate
  | UsageUpsert
  | UsageFindUnique
  | UsageCreate
  | UsageUpdate
  | UsageFindUpdated
  | ApiCallCreate
  | ApiCallCreateFailure
  | StripeSubscriptionsRetrieve
  | StripeCustomersRetrieve

text \<open>The \<open>Usage\<close> table has the unique key \<open>userId_month_year\<close>: it is a map from
  that key to the row's \<open>requestCount\<close>.\<close>

type_synonym usage_key = "string \<times> int \<times> int"

record store =
  users :: "user list"
  usage :: "usage_key \<rightharpoonup> int"
  apiCalls :: "apiCall list"
  oplog :: "op list"

record clock =
  now :: int
  month :: int
  year :: int

record completion =
  content :: string
  total_tokens :: int
  prompt_tokens :: int
  completion_tokens :: int

text \<open>Stripe objects, with the fields the webhook handlers read. An event is its type
  tag together with \<open>event.data.object\<close>, whose shape Stripe fixes by the type.\<close>

record subscription =
  subscription_id :: string
  customer :: string
  current_period_end :: int
  stripe_status :: string
  cancel_at_period_end :: bool

record customer =
  customer_id :: string

record session =
  metadata_userId :: string
  metadata_planId :: string
  session_subscription :: string

record invoice =
  invoice_subscription :: "string option"

datatype stripe_event =
    CheckoutSessionCompleted session
  | InvoicePaymentSucceeded invoice
  | InvoicePaymentFailed invoice
  | CustomerSubscriptionUpdated subscription
  | CustomerSubscriptionDeleted subscription
  | UnhandledEvent string

text \<open>A JavaScript value, as far as property lookups in object literals produce one.
  \<open>JBuiltin k\<close> is the built-in function or object that every object inherits from
  \<open>Object.prototype\<close> under the key \<open>k\<close>.\<close>

datatype js_value =
    JUndefined
  | JNullValue
  | JBoolean bool
  | JNumber int
  | JString string
  | JBuiltin string

fun truthy :: "js_value \<Rightarrow> bool" where
  "truthy JUndefined = False"
| "truthy JNullValue = False"
| "truthy (JBoolean b) = b"
| "truthy (JNumber n) = (n \<noteq> 0)"
| "truthy (JString s) = (s \<noteq> [])"
| "truthy (JBuiltin k) = True"

definition objectPrototypeKeys :: "string list" where
  "objectPrototypeKeys =
     [''constructor'', ''__defineGetter__'', ''__defineSetter__'', ''hasOwnProperty'',
      ''__lookupGetter__'', ''__lookupSetter__'', ''isPrototypeOf'', ''propertyIsEnumerable'',
      ''toString'', ''valueOf'', ''__proto__'', ''toLocaleString'']"

text \<open>What the outside world answers during one request.
  \<^item> \<open>jwtVerify t\<close>: the \<open>userId\<close> of the payload of token \<open>t\<close>, or \<open>None\<close> when
    \<open>jwt.verify\<close> throws;
  \<^item> \<open>storageFault c\<close>: the error the call at site \<open>c\<close> throws, if it does;
  \<^item> \<open>authClock\<close>, \<open>gateClock\<close>, \<open>txClock\<close>: \<open>new Date()\<close> as read by the
    authentication middleware, by the plan-limit middleware and by the writes after the
    provider call; \<open>startTime\<close>, \<open>endTime\<close>, \<open>catchTime\<close>: \<open>Date.now()\<close> at the start of
    the handler, after the provider call, and in the handler's catch block;
  \<^item> \<open>openai\<close>: the outcome of \<open>openai.chat.completions.create\<close>;
  \<^item> \<open>rateLimited\<close>: whether the per-minute limiter of the older route stops the request;
  \<^item> \<open>builtinProperty k p\<close>: the property \<open>p\<close> of the built-in \<open>JBuiltin k\<close>;
  \<^item> \<open>constructEvent payload sig secret\<close>: the event \<open>stripe.webhooks.constructEvent\<close>
    returns, or the message of the error it throws when the signature does not verify;
    \<open>webhookSecret\<close> is \<open>process.env.STRIPE_WEBHOOK_SECRET\<close>;
  \<^item> \<open>subscriptionsRetrieve\<close>, \<open>customersRetrieve\<close>: the answers of
    \<open>stripe.subscriptions.retrieve\<close> and \<open>stripe.customers.retrieve\<close>;
  \<^item> \<open>webhookNow\<close>: \<open>new Date()\<close> as read by a webhook handler;
  \<^item> \<open>validatorTrim t\<close>, \<open>validatorIsLength t lo hi\<close>: what the validator library's
    sanitizer \<open>trim()\<close> makes of the text \<open>t\<close>, and whether its check
    \<open>isLength({ min: lo, max: hi })\<close> accepts \<open>t\<close>.\<close>

record env =
  jwtVerify :: "string \<Rightarrow> string option"
  storageFault :: "op \<Rightarrow> js_error option"
  authClock :: clock
  gateClock :: clock
  txClock :: clock
  startTime :: int
  endTime :: int
  catchTime :: int
  openai :: "js_error + completion"
  rateLimited :: bool
  builtinProperty :: "string \<Rightarrow> string \<Rightarrow> js_value"
  constructEvent :: "string \<Rightarrow> string option \<Rightarrow> string option \<Rightarrow> string + stripe_event"
  webhookSecret :: "string option"
  subscriptionsRetrieve :: "string \<Rightarrow> js_error + subscription"
  customersRetrieve :: "string \<Rightarrow> js_error + customer"
  webhookNow :: int
  validatorTrim :: "string \<Rightarrow> string"
  validatorIsLength :: "string \<Rightarrow> nat \<Rightarrow> nat \<Rightarrow> bool"

record request =
  authorization :: "string option"
  reqReviewText :: string
  reqTone :: string
  reqLanguage :: "string option"
  reqBusinessType :: "string option"

record webhook_request =
  rawBody :: string
  stripeSignature :: "string option"

datatype 'a middleware = Respond response | Next 'a

subsection \<open>Store calls\<close>

definition logged :: "op \<Rightarrow> store \<Rightarrow> store" where
  "logged c s = s\<lparr>oplog := oplog s @ [c]\<rparr>"

definition user_findUnique ::
  "env \<Rightarrow> string \<Rightarrow> store \<Rightarrow> (js_error + user option) \<times> store" where
  "user_findUnique e uid s =
     (case storageFault e UserFindUnique of
        Some err \<Rightarrow> (Inl err, logged UserFindUnique s)
      | None \<Rightarrow> (Inr (find (\<lambda>u. user_id u = uid) (users s)), logged UserFindUnique s))"

definition usage_upsert ::
  "env \<Rightarrow> usage_key \<Rightarrow> store \<Rightarrow> (js_error + int) \<times> store" where
  "usage_upsert e k s =
     (case storageFault e UsageUpsert of
        Some err \<Rightarrow> (Inl err, logged UsageUpsert s)
      | None \<Rightarrow>
          (let c = (case usage s k of None \<Rightarrow> 1 | Some n \<Rightarrow> n + 1)
           in (Inr c, logged UsageUpsert (s\<lparr>usage := (usage s)(k \<mapsto> c)\<rparr>))))"

definition apiCall_create ::
  "env \<Rightarrow> op \<Rightarrow> apiCall \<Rightarrow> store \<Rightarrow> (js_error + unit) \<times> store" where
  "apiCall_create e site row s =
     (case storageFault e site of
        Some err \<Rightarrow> (Inl err, logged site s)
      | None \<Rightarrow> (Inr (), logged site (s\<lparr>apiCalls := apiCalls s @ [row]\<rparr>)))"

text \<open>\<open>prisma.user.findFirst\<close>: the first row that matches.\<close>

definition user_findFirst ::
  "env \<Rightarrow> (user \<Rightarrow> bool) \<Rightarrow> store \<Rightarrow> (js_error + user option) \<times> store" where
  "user_findFirst e p s =
     (case storageFault e UserFindFirst of
        Some err \<Rightarrow> (Inl err, logged UserFindFirst s)
      | None \<Rightarrow> (Inr (find p (users s)), logged UserFindFirst s))"

text \<open>What Prisma throws when the row of an update does not exist.\<close>

definition recordNotFound :: js_error where
  "recordNotFound = \<lparr>code = Some ''P2025'', message = ''Record to update not found.''\<rparr>"

text \<open>\<open>prisma.user.update({ where: { id }, data })\<close>; \<open>f\<close> writes the columns of
  \<open>data\<close>.\<close>

definition user_update ::
  "env \<Rightarrow> string \<Rightarrow> (user \<Rightarrow> user) \<Rightarrow> store \<Rightarrow> (js_error + unit) \<times> store" where
  "user_update e uid f s =
     (case storageFault e UserUpdate of
        Some err \<Rightarrow> (Inl err, logged UserUpdate s)
      | None \<Rightarrow>
          (case find (\<lambda>u. user_id u = uid) (users s) of
             None \<Rightarrow> (Inl recordNotFound, logged UserUpdate s)
           | Some _ \<Rightarrow>
               (Inr (),
                logged UserUpdate
                  (s\<lparr>users := map (\<lambda>u. if user_id u = uid then f u else u) (users s)\<rparr>))))"

definition usage_findUnique ::
  "env \<Rightarrow> op \<Rightarrow> usage_key \<Rightarrow> store \<Rightarrow> (js_error + int option) \<times> store" where
  "usage_findUnique e site k s =
     (case storageFault e site of
        Some err \<Rightarrow> (Inl err, logged site s)
      | None \<Rightarrow> (Inr (usage s k), logged site s))"

text \<open>\<open>prisma.usage.create\<close> with \<open>requestCount: 0\<close>, called when no row was found.\<close>

definition usage_create ::
  "env \<Rightarrow> usage_key \<Rightarrow> store \<Rightarrow> (js_error + int) \<times> store" where
  "usage_create e k s =
     (case storageFault e UsageCreate of
        Some err \<Rightarrow> (Inl err, logged UsageCreate s)
      | None \<Rightarrow> (Inr 0, logged UsageCreate (s\<lparr>usage := (usage s)(k \<mapsto> 0)\<rparr>)))"

text \<open>\<open>prisma.usage.update\<close> with \<open>requestCount: { increment: 1 }\<close>.\<close>

definition usage_increment ::
  "env \<Rightarrow> usage_key \<Rightarrow> store \<Rightarrow> (js_error + unit) \<times> store" where
  "usage_increment e k s =
     (case storageFault e UsageUpdate of
        Some err \<Rightarrow> (Inl err, logged UsageUpdate s)
      | None \<Rightarrow>
          (case usage s k of
             None \<Rightarrow> (Inl recordNotFound, logged UsageUpdate s)
           | Some n \<Rightarrow> (Inr (), logged UsageUpdate (s\<lparr>usage := (usage s)(k \<mapsto> n + 1)\<rparr>))))"

definition stripe_subscriptions_retrieve ::
  "env \<Rightarrow> string \<Rightarrow> store \<Rightarrow> (js_error + subscription) \<times> store" where
  "stripe_subscriptions_retrieve e sid s =
     (subscriptionsRetrieve e sid, logged StripeSubscriptionsRetrieve s)"

definition stripe_customers_retrieve ::
  "env \<Rightarrow> string \<Rightarrow> store \<Rightarrow> (js_error + customer) \<times> store" where
  "stripe_customers_retrieve e cid s =
     (customersRetrieve e cid, logged StripeCustomersRetrieve s)"

text \<open>\<open>prisma.$transaction(async (tx) => ...)\<close>: Prisma commits the writes made through
  \<open>tx\<close> when the callback returns and rolls all of them back when it throws. The log of
  calls is not part of the database and is kept.\<close>

definition prisma_transaction ::
  "(store \<Rightarrow> (js_error + 'a) \<times> store) \<Rightarrow> store \<Rightarrow> (js_error + 'a) \<times> store" where
  "prisma_transaction f s =
     (case f s of
        (Inl err, s') \<Rightarrow> (Inl err, s\<lparr>oplog := oplog s'\<rparr>)
      | (Inr v, s') \<Rightarrow> (Inr v, s'))"

section \<open>routes/reviews.js: the generation route with usage tracking\<close>

subsection \<open>Helpers\<close>

text \<open>\<open>str.split(c)\<close> for a one-character separator.\<close>

fun split_on :: "char \<Rightarrow> string \<Rightarrow> string list" where
  "split_on c [] = [[]]"
| "split_on c (x # xs) =
     (if x = c then [] # split_on c xs
      else (case split_on c xs of [] \<Rightarrow> [[x]] | w # ws \<Rightarrow> (x # w) # ws))"

text \<open>\<open>authHeader?.split(' ')[1]\<close>; \<open>None\<close> is \<open>undefined\<close>.\<close>

definition bearerToken :: "string option \<Rightarrow> string option" where
  "bearerToken authHeader =
     (case authHeader of
        None \<Rightarrow> None
      | Some h \<Rightarrow> (case split_on CHR '' '' h of _ # t # _ \<Rightarrow> Some t | _ \<Rightarrow> None))"

text \<open>A date column in a comparison with \<open>new Date()\<close>: null converts to 0.\<close>

definition dateValue :: "int option \<Rightarrow> int" where
  "dateValue d = (case d of None \<Rightarrow> 0 | Some t \<Rightarrow> t)"

definition enProfessional :: string where
  "enProfessional = ''Thank you for your feedback. We appreciate you taking the time to share your experience with us.''"

definition responses :: "(string \<times> (string \<times> string) list) list" where
  "responses =
     [(''en'',
       [(''professional'', enProfessional),
        (''friendly'', ''Thanks so much for your review! We really appreciate you sharing your thoughts with us.''),
        (''apologetic'', ''We sincerely apologize for any inconvenience. Your feedback is important to us and we will work to improve.''),
        (''grateful'', ''Thank you so much for your wonderful feedback! We truly appreciate your support.'')])]"

text \<open>\<open>responses[language]?.[tone] || responses.en.professional\<close>. A lookup in an
  object literal finds the literal's own keys first and then the keys of
  \<open>Object.prototype\<close>; \<open>?.\<close> stops at \<open>undefined\<close>. When \<open>language\<close> is an
  inherited key, \<open>responses[language]\<close> is a built-in, and the property \<open>tone\<close> of that
  built-in is what the JavaScript engine says it is: \<open>builtins language tone\<close>.\<close>

definition generateFallbackResponse ::
  "(string \<Rightarrow> string \<Rightarrow> js_value) \<Rightarrow> string \<Rightarrow> string \<Rightarrow> string \<Rightarrow> js_value" where
  "generateFallbackResponse builtins = (\<lambda>reviewText tone language.
     let keyed =
        (case map_of responses language of
           Some byTone \<Rightarrow>
             (case map_of byTone tone of
                Some text \<Rightarrow> JString text
              | None \<Rightarrow> if tone \<in> set objectPrototypeKeys then JBuiltin tone else JUndefined)
         | None \<Rightarrow>
             if language \<in> set objectPrototypeKeys then builtins language tone else JUndefined)
      in if truthy keyed then keyed else JString enProfessional)"

subsection \<open>Validation\<close>

text \<open>The validators are chains of the validator library. Its sanitizer \<open>trim()\<close>
  writes the trimmed text back to the request body, so the handler reads the trimmed
  text; \<open>isIn\<close> accepts the strings of its list.\<close>

definition tones :: "string list" where
  "tones = [''professional'', ''friendly'', ''apologetic'', ''grateful'']"

definition languages :: "string list" where
  "languages = [''en'', ''ro'', ''es'', ''fr'', ''de'', ''it'']"

text \<open>The fields \<open>generateValidation\<close> rejects. \<open>language\<close> is optional.\<close>

definition generateValidation :: "env \<Rightarrow> request \<Rightarrow> string list" where
  "generateValidation e req =
     (if validatorIsLength e (validatorTrim e (reqReviewText req)) 10 5000
      then [] else [''reviewText'']) @
     (if reqTone req \<in> set tones then [] else [''tone'']) @
     (case reqLanguage req of
        None \<Rightarrow> []
      | Some l \<Rightarrow> if l \<in> set languages then [] else [''language''])"

subsection \<open>The middleware authenticateAndCheckUsage\<close>

definition authenticationRequired :: response where
  "authenticationRequired =
     \<lparr>status = 401,
      body = JObj [(''success'', JBool False), (''error'', JStr ''Authentication required'')]\<rparr>"

definition authenticationFailed :: response where
  "authenticationFailed =
     \<lparr>status = 401,
      body = JObj [(''success'', JBool False), (''error'', JStr ''Authentication failed'')]\<rparr>"

definition userNotFoundOrInactive :: response where
  "userNotFoundOrInactive =
     \<lparr>status = 401,
      body = JObj [(''success'', JBool False), (''error'', JStr ''User not found or inactive'')]\<rparr>"

definition subscriptionExpired :: response where
  "subscriptionExpired =
     \<lparr>status = 403,
      body = JObj [(''success'', JBool False), (''error'', JStr ''Subscription expired''),
                   (''code'', JStr ''SUBSCRIPTION_EXPIRED'')]\<rparr>"

definition usageLimitReached :: "int \<Rightarrow> int \<Rightarrow> clock \<Rightarrow> response" where
  "usageLimitReached currentUsage limit c =
     \<lparr>status = 429,
      body = JObj [(''success'', JBool False), (''error'', JStr ''Monthly usage limit reached''),
                   (''code'', JStr ''USAGE_LIMIT_REACHED''),
                   (''usage'', JObj [(''current'', JNum currentUsage), (''limit'', JNum limit),
                                     (''resetDate'', JLocalDate (year c) (month c + 1) 1)])]\<rparr>"

text \<open>The subscription check of the middleware.\<close>

definition isSubscriptionActive :: "user \<Rightarrow> clock \<Rightarrow> bool" where
  "isSubscriptionActive u c =
     (if subscriptionPlan u = ''free'' then True
      else dateValue (subscriptionExpiresAt u) > now c)"

text \<open>\<open>user.usage[0]?.requestCount || 0\<close>, the included rows being those of the user
  for the month and year read from the clock.\<close>

definition currentUsageOf :: "store \<Rightarrow> user \<Rightarrow> clock \<Rightarrow> int" where
  "currentUsageOf s u c =
     (case usage s (user_id u, month c, year c) of None \<Rightarrow> 0 | Some n \<Rightarrow> n)"

definition authenticateAndCheckUsage ::
  "env \<Rightarrow> request \<Rightarrow> store \<Rightarrow> (user \<times> int) middleware \<times> store" where
  "authenticateAndCheckUsage e req s =
     (case bearerToken (authorization req) of
        None \<Rightarrow> (Respond authenticationRequired, s)
      | Some token \<Rightarrow>
          if token = [] then (Respond authenticationRequired, s)
          else
            (case jwtVerify e token of
               None \<Rightarrow> (Respond authenticationFailed, s)
             | Some decodedUserId \<Rightarrow>
                 (case user_findUnique e decodedUserId s of
                    (Inl err, s1) \<Rightarrow> (Respond authenticationFailed, s1)
                  | (Inr None, s1) \<Rightarrow> (Respond userNotFoundOrInactive, s1)
                  | (Inr (Some u), s1) \<Rightarrow>
                      if isActive u = False then (Respond userNotFoundOrInactive, s1)
                      else if isSubscriptionActive u (authClock e) = False
                        then (Respond subscriptionExpired, s1)
                      else
                        (let currentUsage = currentUsageOf s1 u (authClock e)
                         in if monthlyLimit u \<noteq> - 1 \<and> currentUsage \<ge> monthlyLimit u
                            then (Respond (usageLimitReached currentUsage (monthlyLimit u)
                                             (authClock e)), s1)
                            else (Next (u, currentUsage), s1)))))"

subsection \<open>POST /generate\<close>

text \<open>\<open>Math.round((count / limit) * 100)\<close>, which JSON writes as null when the
  quotient is not finite.\<close>

definition percentage :: "int \<Rightarrow> int \<Rightarrow> json" where
  "percentage count limit =
     (if limit = - 1 then JNum 0
      else if limit = 0 then JNull
      else JNum (mathRound (double (double (of_int count / of_int limit) * 100))))"

definition remaining :: "int \<Rightarrow> int \<Rightarrow> int" where
  "remaining limit count = (if limit = - 1 then - 1 else max 0 (limit - count))"

text \<open>The answer to invalid input; of \<open>errors.array()\<close> only the names of the rejected
  fields are kept.\<close>

definition invalidInput :: "string list \<Rightarrow> response" where
  "invalidInput errors =
     \<lparr>status = 400,
      body = JObj [(''success'', JBool False), (''error'', JStr ''Invalid input''),
                   (''details'', JArr (map JStr errors))]\<rparr>"

definition failedToGenerate :: response where
  "failedToGenerate =
     \<lparr>status = 500,
      body = JObj [(''success'', JBool False), (''error'', JStr ''Failed to generate response'')]\<rparr>"

text \<open>The provider call of the handler with its catch block: the text, the tokens used
  and the cost.\<close>

definition callProvider :: "env \<Rightarrow> string \<Rightarrow> string \<Rightarrow> string \<Rightarrow> js_value \<times> int \<times> rat" where
  "callProvider e = (\<lambda>reviewText tone language.
     case openai e of
       Inr c \<Rightarrow>
         (JString (content c), total_tokens c,
          costOf (prompt_tokens c) (completion_tokens c))
     | Inl openaiError \<Rightarrow>
         (generateFallbackResponse (builtinProperty e) reviewText tone language, 0, 0))"

text \<open>The callback of the transaction: the usage upsert, then the audit row.
  \<open>responseText.substring\<close> throws when \<open>responseText\<close> is not a string.\<close>

definition transactionCallback ::
  "env \<Rightarrow> user \<Rightarrow> js_value \<Rightarrow> apiCall \<Rightarrow> store \<Rightarrow> (js_error + int) \<times> store" where
  "transactionCallback e u text row tx =
     (case usage_upsert e (user_id u, month (txClock e), year (txClock e)) tx of
        (Inl err, tx1) \<Rightarrow> (Inl err, tx1)
      | (Inr requestCount, tx1) \<Rightarrow>
          (case text of
             JString t \<Rightarrow>
               (case apiCall_create e ApiCallCreate (row\<lparr>responseText := take 500 t\<rparr>) tx1 of
                  (Inl err, tx2) \<Rightarrow> (Inl err, tx2)
                | (Inr _, tx2) \<Rightarrow> (Inr requestCount, tx2))
           | _ \<Rightarrow>
               (Inl \<lparr>code = None, message = ''responseText.substring is not a function''\<rparr>,
                tx1)))"

definition generated ::
  "js_value \<Rightarrow> int \<Rightarrow> rat \<Rightarrow> int \<Rightarrow> string \<Rightarrow> string \<Rightarrow> int \<Rightarrow> int \<Rightarrow> response" where
  "generated text tokens c d lang tn requestCount limit =
     res_json (JObj
       [(''success'', JBool True),
        (''response'', (case text of JString t \<Rightarrow> JStr t | _ \<Rightarrow> JNull)),
        (''metadata'', JObj [(''tokensUsed'', JNum tokens), (''cost'', JToFixed c 6),
                             (''duration'', JNum d), (''language'', JStr lang),
                             (''tone'', JStr tn), (''model'', JStr ''gpt-4'')]),
        (''usage'', JObj [(''current'', JNum requestCount), (''limit'', JNum limit),
                          (''remaining'', JNum (remaining limit requestCount)),
                          (''percentage'', percentage requestCount limit)])])"

definition generate :: "env \<Rightarrow> request \<Rightarrow> user \<Rightarrow> store \<Rightarrow> response \<times> store" where
  "generate e req u s =
     (let errors = generateValidation e req in
      if errors \<noteq> [] then (invalidInput errors, s)
      else
        (let reviewText = validatorTrim e (reqReviewText req);
             tone = reqTone req;
             language = (case reqLanguage req of None \<Rightarrow> ''en'' | Some l \<Rightarrow> l);
             businessType = (case reqBusinessType req of None \<Rightarrow> ''general'' | Some b \<Rightarrow> b);
             (text, tokensUsed, cost) = callProvider e reviewText tone language;
             duration = endTime e - startTime e;
             row = \<lparr>userId = user_id u, reviewText = take 500 reviewText, responseText = [],
                    language = language, tone = tone, model = ''gpt-4'',
                    businessType = Some businessType, tokensUsed = tokensUsed, cost = cost,
                    duration = duration, success = True, errorMessage = None\<rparr>
         in case prisma_transaction (transactionCallback e u text row) s of
              (Inl err, s') \<Rightarrow> (failedToGenerate, s')
            | (Inr requestCount, s') \<Rightarrow>
                (generated text tokensUsed cost duration language tone requestCount
                   (monthlyLimit u), s')))"

text \<open>The route: the middleware, then the validators and the handler.\<close>

definition postGenerate :: "env \<Rightarrow> request \<Rightarrow> store \<Rightarrow> response \<times> store" where
  "postGenerate e req s =
     (case authenticateAndCheckUsage e req s of
        (Respond r, s1) \<Rightarrow> (r, s1)
      | (Next (u, currentUsage), s1) \<Rightarrow> generate e req u s1)"

section \<open>The older generation route (authenticateToken, checkPlanLimits, POST /generate)\<close>

text \<open>A second file of the repository defines the same route with its own middlewares:
  the plan limit comes from a table keyed by the plan name, the two writes are separate
  calls, and a provider failure is reported to the caller.\<close>

definition tokenMissing :: response where
  "tokenMissing = \<lparr>status = 401, body = JObj [(''error'', JStr ''Token de acces lipseste'')]\<rparr>"

definition tokenInvalid :: response where
  "tokenInvalid = \<lparr>status = 401, body = JObj [(''error'', JStr ''Token invalid'')]\<rparr>"

definition userNotFound :: response where
  "userNotFound =
     \<lparr>status = 404, body = JObj [(''error'', JStr ''Utilizatorul nu a fost gasit'')]\<rparr>"

definition subscriptionHasExpired :: response where
  "subscriptionHasExpired =
     \<lparr>status = 403,
      body = JObj [(''error'', JStr ''Abonamentul a expirat''),
                   (''subscriptionExpired'', JBool True)]\<rparr>"

definition authenticateToken :: "env \<Rightarrow> request \<Rightarrow> store \<Rightarrow> user middleware \<times> store" where
  "authenticateToken e req s =
     (case bearerToken (authorization req) of
        None \<Rightarrow> (Respond tokenMissing, s)
      | Some token \<Rightarrow>
          if token = [] then (Respond tokenMissing, s)
          else
            (case jwtVerify e token of
               None \<Rightarrow> (Respond tokenInvalid, s)
             | Some decodedUserId \<Rightarrow>
                 (case user_findUnique e decodedUserId s of
                    (Inl err, s1) \<Rightarrow> (Respond tokenInvalid, s1)
                  | (Inr None, s1) \<Rightarrow> (Respond userNotFound, s1)
                  | (Inr (Some u), s1) \<Rightarrow>
                      if dateValue (subscriptionExpiresAt u) < now (authClock e)
                      then (Respond subscriptionHasExpired, s1)
                      else (Next u, s1))))"

definition planLimits :: "(string \<times> int) list" where
  "planLimits = [(''free'', 10), (''basic'', 500), (''premium'', 2000), (''enterprise'', - 1)]"

text \<open>\<open>planLimits[user.subscriptionPlan] || 0\<close>.\<close>

definition userLimitOf :: "string \<Rightarrow> js_value" where
  "userLimitOf plan =
     (let found =
        (case map_of planLimits plan of
           Some n \<Rightarrow> JNumber n
         | None \<Rightarrow> if plan \<in> set objectPrototypeKeys then JBuiltin plan else JUndefined)
      in if truthy found then found else JNumber 0)"

text \<open>\<open>count >= limit\<close>: a limit that is not a number converts to NaN, and the
  comparison is false.\<close>

definition reachesLimit :: "int \<Rightarrow> js_value \<Rightarrow> bool" where
  "reachesLimit count limit = (case limit of JNumber n \<Rightarrow> count \<ge> n | _ \<Rightarrow> False)"

text \<open>A property in a JSON body: \<open>JSON.stringify\<close> leaves out \<open>undefined\<close> and functions,
  and writes \<open>Object.prototype\<close> as an empty object.\<close>

definition jsonProperty :: "string \<Rightarrow> js_value \<Rightarrow> (string \<times> json) list" where
  "jsonProperty k v =
     (case v of
        JUndefined \<Rightarrow> []
      | JNullValue \<Rightarrow> [(k, JNull)]
      | JBoolean b \<Rightarrow> [(k, JBool b)]
      | JNumber n \<Rightarrow> [(k, JNum n)]
      | JString t \<Rightarrow> [(k, JStr t)]
      | JBuiltin b \<Rightarrow> if b = ''__proto__'' then [(k, JObj [])] else [])"

definition planLimitExceeded :: "int \<Rightarrow> js_value \<Rightarrow> string \<Rightarrow> response" where
  "planLimitExceeded currentUsage limit plan =
     \<lparr>status = 429,
      body = JObj ([(''error'', JStr ''Ai depasit limita lunara pentru planul tau''),
                    (''currentUsage'', JNum currentUsage)] @
                   jsonProperty ''limit'' limit @
                   [(''plan'', JStr plan), (''upgradeRequired'', JBool True)])\<rparr>"

definition limitsCheckFailed :: response where
  "limitsCheckFailed =
     \<lparr>status = 500, body = JObj [(''error'', JStr ''Eroare la verificarea limitelor'')]\<rparr>"

text \<open>The decision of \<open>checkPlanLimits\<close> once the usage row is at hand.\<close>

definition decidePlanLimit :: "user \<Rightarrow> int \<Rightarrow> store \<Rightarrow> (int \<times> js_value) middleware \<times> store" where
  "decidePlanLimit u requestCount s =
     (let userLimit = userLimitOf (subscriptionPlan u)
      in if userLimit \<noteq> JNumber (- 1) \<and> reachesLimit requestCount userLimit
         then (Respond (planLimitExceeded requestCount userLimit (subscriptionPlan u)), s)
         else (Next (requestCount, userLimit), s))"

definition checkPlanLimits ::
  "env \<Rightarrow> user \<Rightarrow> store \<Rightarrow> (int \<times> js_value) middleware \<times> store" where
  "checkPlanLimits e u s =
     (let k = (user_id u, month (gateClock e), year (gateClock e))
      in case usage_findUnique e UsageFindUnique k s of
           (Inl err, s1) \<Rightarrow> (Respond limitsCheckFailed, s1)
         | (Inr (Some requestCount), s1) \<Rightarrow> decidePlanLimit u requestCount s1
         | (Inr None, s1) \<Rightarrow>
             (case usage_create e k s1 of
                (Inl err, s2) \<Rightarrow> (Respond limitsCheckFailed, s2)
              | (Inr requestCount, s2) \<Rightarrow> decidePlanLimit u requestCount s2))"

text \<open>The validators of the older route: \<open>language\<close> is required.\<close>

definition generateValidationOlder :: "env \<Rightarrow> request \<Rightarrow> string list" where
  "generateValidationOlder e req =
     (if validatorIsLength e (validatorTrim e (reqReviewText req)) 5 2000
      then [] else [''reviewText'']) @
     (if reqTone req \<in> set tones then [] else [''tone'']) @
     (case reqLanguage req of
        None \<Rightarrow> [''language'']
      | Some l \<Rightarrow> if l \<in> set languages then [] else [''language'']) @
     (case reqBusinessType req of
        None \<Rightarrow> []
      | Some b \<Rightarrow>
          if validatorIsLength e (validatorTrim e b) 0 50 then [] else [''businessType''])"

definition invalidData :: "string list \<Rightarrow> response" where
  "invalidData errors =
     \<lparr>status = 400,
      body = JObj [(''error'', JStr ''Date invalide''), (''details'', JArr (map JStr errors))]\<rparr>"

text \<open>\<open>Math.max(0, limit - count)\<close>, NaN for a limit that is not a number.\<close>

definition remainingOf :: "js_value \<Rightarrow> int \<Rightarrow> json" where
  "remainingOf limit count =
     (case limit of
        JNumber n \<Rightarrow> JNum (if n = - 1 then - 1 else max 0 (n - count))
      | _ \<Rightarrow> JNull)"

definition generatedOlder ::
  "string \<Rightarrow> int \<Rightarrow> rat \<Rightarrow> int \<Rightarrow> string \<Rightarrow> string \<Rightarrow> int \<Rightarrow> js_value \<Rightarrow> response" where
  "generatedOlder text tokens c d lang tn requestCount limit =
     res_json (JObj
       [(''success'', JBool True),
        (''response'', JStr text),
        (''metadata'', JObj [(''tokensUsed'', JNum tokens), (''cost'', JToFixed c 6),
                             (''duration'', JNum d), (''language'', JStr lang),
                             (''tone'', JStr tn), (''model'', JStr ''gpt-4'')]),
        (''usage'', JObj ([(''current'', JNum requestCount)] @ jsonProperty ''limit'' limit @
                          [(''remaining'', remainingOf limit requestCount)]))])"

text \<open>The answer of the catch block, by \<open>error.code\<close>.\<close>

definition generateError :: "js_error \<Rightarrow> response" where
  "generateError err =
     (if code err = Some ''insufficient_quota'' then
        \<lparr>status = 503,
         body = JObj [(''error'', JStr ''Serviciul este temporar indisponibil. Incearca din nou in cateva minute.''),
                      (''type'', JStr ''quota_exceeded'')]\<rparr>
      else if code err = Some ''rate_limit_exceeded'' then
        \<lparr>status = 429,
         body = JObj [(''error'', JStr ''Prea multe cereri catre serviciul AI. Incearca din nou in cateva secunde.''),
                      (''type'', JStr ''rate_limit'')]\<rparr>
      else
        \<lparr>status = 500,
         body = JObj [(''error'', JStr ''Eroare la generarea raspunsului''),
                      (''message'', JStr ''A aparut o problema tehnica. Incearca din nou.''),
                      (''type'', JStr ''internal_error'')]\<rparr>)"

definition updatedUsageIsNull :: js_error where
  "updatedUsageIsNull =
     \<lparr>code = None, message = ''Cannot read properties of null (reading 'requestCount')''\<rparr>"

text \<open>The try block after validation. A throw carries the values \<open>tokensUsed\<close> and
  \<open>cost\<close> have at that moment, which the catch block writes to its audit row.\<close>

definition generateOlderTry ::
  "env \<Rightarrow> request \<Rightarrow> user \<Rightarrow> js_value \<Rightarrow> store \<Rightarrow> ((js_error \<times> int \<times> rat) + response) \<times> store" where
  "generateOlderTry e req u planLimit s =
     (let reviewText = validatorTrim e (reqReviewText req);
          tone = reqTone req;
          language = (case reqLanguage req of None \<Rightarrow> [] | Some l \<Rightarrow> l)
      in case openai e of
           Inl err \<Rightarrow> (Inl (err, 0, 0), s)
         | Inr c \<Rightarrow>
             (let text = content c;
                  tokensUsed = total_tokens c;
                  cost = costOf (prompt_tokens c) (completion_tokens c);
                  duration = endTime e - startTime e;
                  k = (user_id u, month (txClock e), year (txClock e))
              in case usage_increment e k s of
                   (Inl err, s1) \<Rightarrow> (Inl (err, tokensUsed, cost), s1)
                 | (Inr _, s1) \<Rightarrow>
                     (case apiCall_create e ApiCallCreate
                             \<lparr>userId = user_id u, reviewText = take 500 reviewText,
                              responseText = take 500 text, language = language, tone = tone,
                              model = ''gpt-4'', businessType = None, tokensUsed = tokensUsed,
                              cost = cost, duration = duration, success = True,
                              errorMessage = None\<rparr> s1 of
                        (Inl err, s2) \<Rightarrow> (Inl (err, tokensUsed, cost), s2)
                      | (Inr _, s2) \<Rightarrow>
                          (case usage_findUnique e UsageFindUpdated k s2 of
                             (Inl err, s3) \<Rightarrow> (Inl (err, tokensUsed, cost), s3)
                           | (Inr None, s3) \<Rightarrow> (Inl (updatedUsageIsNull, tokensUsed, cost), s3)
                           | (Inr (Some requestCount), s3) \<Rightarrow>
                               (Inr (generatedOlder text tokensUsed cost duration language tone
                                       requestCount planLimit), s3)))))"

text \<open>The handler: validation, the try block, and the catch block, which writes an audit
  row with \<open>success: false\<close> (a failure of that write is only logged) and answers by
  the error's code.\<close>

definition generateOlder ::
  "env \<Rightarrow> request \<Rightarrow> user \<Rightarrow> js_value \<Rightarrow> store \<Rightarrow> response \<times> store" where
  "generateOlder e req u planLimit s =
     (let errors = generateValidationOlder e req in
      if errors \<noteq> [] then (invalidData errors, s)
      else
        (case generateOlderTry e req u planLimit s of
           (Inr r, s') \<Rightarrow> (r, s')
         | (Inl (err, tokens, c), s') \<Rightarrow>
             (generateError err,
              snd (apiCall_create e ApiCallCreateFailure
                     \<lparr>userId = user_id u,
                      reviewText = take 500 (validatorTrim e (reqReviewText req)),
                      responseText = [],
                      language = (case reqLanguage req of None \<Rightarrow> ''en''
                                  | Some l \<Rightarrow> if l = [] then ''en'' else l),
                      tone = (if reqTone req = [] then ''professional'' else reqTone req),
                      model = ''gpt-4'', businessType = None, tokensUsed = tokens,
                      cost = c, duration = catchTime e - startTime e, success = False,
                      errorMessage = Some (message err)\<rparr> s'))))"

definition tooManyRequests :: response where
  "tooManyRequests =
     \<lparr>status = 429,
      body = JObj [(''error'', JStr ''Prea multe cereri. Incearca din nou in 1 minut.'')]\<rparr>"

definition postGenerateOlder :: "env \<Rightarrow> request \<Rightarrow> store \<Rightarrow> response \<times> store" where
  "postGenerateOlder e req s =
     (case authenticateToken e req s of
        (Respond r, s1) \<Rightarrow> (r, s1)
      | (Next u, s1) \<Rightarrow>
          (case checkPlanLimits e u s1 of
             (Respond r, s2) \<Rightarrow> (r, s2)
           | (Next (requestCount, planLimit), s2) \<Rightarrow>
               if rateLimited e then (tooManyRequests, s2)
               else generateOlder e req u planLimit s2))"

section \<open>routes/subscriptions.js: the Stripe webhook\<close>

definition handleCheckoutCompleted ::
  "env \<Rightarrow> session \<Rightarrow> store \<Rightarrow> (js_error + unit) \<times> store" where
  "handleCheckoutCompleted e sess s =
     (let userId = metadata_userId sess;
          planId = metadata_planId sess
      in case stripe_subscriptions_retrieve e (session_subscription sess) s of
           (Inl err, s1) \<Rightarrow> (Inl err, s1)
         | (Inr sub, s1) \<Rightarrow>
             user_update e userId
               (\<lambda>u. u\<lparr>subscriptionPlan := planId,
                       subscriptionStatus := ''active'',
                       subscriptionExpiresAt := Some (current_period_end sub * 1000),
                       stripeSubscriptionId := Some (subscription_id sub)\<rparr>) s1)"

text \<open>The lookup shared by the invoice and subscription handlers: the customer of the
  subscription, then the first user with that \<open>stripeCustomerId\<close>.\<close>

definition userOfSubscription ::
  "env \<Rightarrow> subscription \<Rightarrow> store \<Rightarrow> (js_error + user option) \<times> store" where
  "userOfSubscription e sub s =
     (case stripe_customers_retrieve e (customer sub) s of
        (Inl err, s1) \<Rightarrow> (Inl err, s1)
      | (Inr cust, s1) \<Rightarrow>
          user_findFirst e (\<lambda>u. stripeCustomerId u = Some (customer_id cust)) s1)"

text \<open>\<open>if (invoice.subscription)\<close>: neither null nor the empty string.\<close>

definition subscriptionOfInvoice :: "invoice \<Rightarrow> string option" where
  "subscriptionOfInvoice invoice =
     (case invoice_subscription invoice of
        None \<Rightarrow> None
      | Some sid \<Rightarrow> if sid = [] then None else Some sid)"

definition handlePaymentSucceeded ::
  "env \<Rightarrow> invoice \<Rightarrow> store \<Rightarrow> (js_error + unit) \<times> store" where
  "handlePaymentSucceeded e invoice s =
     (case subscriptionOfInvoice invoice of
        None \<Rightarrow> (Inr (), s)
      | Some sid \<Rightarrow>
          (case stripe_subscriptions_retrieve e sid s of
             (Inl err, s1) \<Rightarrow> (Inl err, s1)
           | (Inr sub, s1) \<Rightarrow>
               (case userOfSubscription e sub s1 of
                  (Inl err, s2) \<Rightarrow> (Inl err, s2)
                | (Inr None, s2) \<Rightarrow> (Inr (), s2)
                | (Inr (Some found), s2) \<Rightarrow>
                    user_update e (user_id found)
                      (\<lambda>u. u\<lparr>subscriptionStatus := ''active'',
                              subscriptionExpiresAt := Some (current_period_end sub * 1000)\<rparr>)
                      s2)))"

definition handlePaymentFailed ::
  "env \<Rightarrow> invoice \<Rightarrow> store \<Rightarrow> (js_error + unit) \<times> store" where
  "handlePaymentFailed e invoice s =
     (case subscriptionOfInvoice invoice of
        None \<Rightarrow> (Inr (), s)
      | Some sid \<Rightarrow>
          (case stripe_subscriptions_retrieve e sid s of
             (Inl err, s1) \<Rightarrow> (Inl err, s1)
           | (Inr sub, s1) \<Rightarrow>
               (case userOfSubscription e sub s1 of
                  (Inl err, s2) \<Rightarrow> (Inl err, s2)
                | (Inr None, s2) \<Rightarrow> (Inr (), s2)
                | (Inr (Some found), s2) \<Rightarrow>
                    user_update e (user_id found)
                      (\<lambda>u. u\<lparr>subscriptionStatus := ''past_due''\<rparr>) s2)))"

definition handleSubscriptionUpdated ::
  "env \<Rightarrow> subscription \<Rightarrow> store \<Rightarrow> (js_error + unit) \<times> store" where
  "handleSubscriptionUpdated e sub s =
     (case userOfSubscription e sub s of
        (Inl err, s1) \<Rightarrow> (Inl err, s1)
      | (Inr None, s1) \<Rightarrow> (Inr (), s1)
      | (Inr (Some found), s1) \<Rightarrow>
          user_update e (user_id found)
            (\<lambda>u. u\<lparr>subscriptionStatus :=
                      (if cancel_at_period_end sub then ''cancelled'' else stripe_status sub),
                    subscriptionExpiresAt := Some (current_period_end sub * 1000)\<rparr>) s1)"

definition handleSubscriptionDeleted ::
  "env \<Rightarrow> subscription \<Rightarrow> store \<Rightarrow> (js_error + unit) \<times> store" where
  "handleSubscriptionDeleted e sub s =
     (case userOfSubscription e sub s of
        (Inl err, s1) \<Rightarrow> (Inl err, s1)
      | (Inr None, s1) \<Rightarrow> (Inr (), s1)
      | (Inr (Some found), s1) \<Rightarrow>
          user_update e (user_id found)
            (\<lambda>u. u\<lparr>subscriptionPlan := ''free'',
                    subscriptionStatus := ''cancelled'',
                    subscriptionExpiresAt := Some (webhookNow e),
                    stripeSubscriptionId := None\<rparr>) s1)"

text \<open>The switch on \<open>event.type\<close>.\<close>

fun processEvent :: "env \<Rightarrow> stripe_event \<Rightarrow> store \<Rightarrow> (js_error + unit) \<times> store" where
  "processEvent e (CheckoutSessionCompleted sess) s = handleCheckoutCompleted e sess s"
| "processEvent e (InvoicePaymentSucceeded invoice) s = handlePaymentSucceeded e invoice s"
| "processEvent e (InvoicePaymentFailed invoice) s = handlePaymentFailed e invoice s"
| "processEvent e (CustomerSubscriptionUpdated sub) s = handleSubscriptionUpdated e sub s"
| "processEvent e (CustomerSubscriptionDeleted sub) s = handleSubscriptionDeleted e sub s"
| "processEvent e (UnhandledEvent t) s = (Inr (), s)"

definition webhookError :: "string \<Rightarrow> response" where
  "webhookError errMessage = \<lparr>status = 400, body = JStr (''Webhook Error: '' @ errMessage)\<rparr>"

definition webhookProcessingFailed :: response where
  "webhookProcessingFailed =
     \<lparr>status = 500, body = JObj [(''error'', JStr ''Webhook processing failed'')]\<rparr>"

definition received :: response where
  "received = res_json (JObj [(''received'', JBool True)])"

definition webhook :: "env \<Rightarrow> webhook_request \<Rightarrow> store \<Rightarrow> response \<times> store" where
  "webhook e req s =
     (case constructEvent e (rawBody req) (stripeSignature req) (webhookSecret e) of
        Inl errMessage \<Rightarrow> (webhookError errMessage, s)
      | Inr event \<Rightarrow>
          (case processEvent e event s of
             (Inl err, s') \<Rightarrow> (webhookProcessingFailed, s')
           | (Inr _, s') \<Rightarrow> (received, s')))"

section \<open>Preconditions and example data\<close>

text \<open>The request carries a bearer token that verifies, the user lookup does not
  fail, and the token's user is the row \<open>u\<close>.\<close>

definition authenticated :: "env \<Rightarrow> request \<Rightarrow> store \<Rightarrow> user \<Rightarrow> bool" where
  "authenticated e req s u =
     (case bearerToken (authorization req) of
        None \<Rightarrow> False
      | Some token \<Rightarrow>
          token \<noteq> [] \<and>
          (case jwtVerify e token of
             None \<Rightarrow> False
           | Some decodedUserId \<Rightarrow>
               storageFault e UserFindUnique = None \<and>
               find (\<lambda>x. user_id x = decodedUserId) (users s) = Some u))"

text \<open>Reading a response body: the value found by following the keys \<open>ks\<close> from the
  top of a JSON value.\<close>

fun jsonPath :: "string list \<Rightarrow> json \<Rightarrow> json option" where
  "jsonPath [] j = Some j"
| "jsonPath (k # ks) (JObj kvs) =
     (case map_of kvs k of None \<Rightarrow> None | Some v \<Rightarrow> jsonPath ks v)"
| "jsonPath (k # ks) j = None"

text \<open>Concrete users, requests, stores and outside worlds, at which the theorems below
  are instantiated. The texts of the examples are ASCII; on such texts the library's
  \<open>trim()\<close> removes the leading and trailing spaces, tabs and line breaks, and
  \<open>isLength\<close> compares the number of characters.\<close>

definition asciiWhitespace :: "char \<Rightarrow> bool" where
  "asciiWhitespace c = (c \<in> set [CHR '' '', CHR 0x09, CHR 0x0A, CHR 0x0B, CHR 0x0C, CHR 0x0D])"

definition asciiTrim :: "string \<Rightarrow> string" where
  "asciiTrim t = rev (dropWhile asciiWhitespace (rev (dropWhile asciiWhitespace t)))"

definition exampleUser :: user where
  "exampleUser =
     \<lparr>user_id = ''u1'', isActive = True, subscriptionPlan = ''free'',
      subscriptionStatus = ''active'', subscriptionExpiresAt = None, monthlyLimit = 10,
      stripeCustomerId = Some ''cus_1'', stripeSubscriptionId = None\<rparr>"

definition exampleClock :: clock where
  "exampleClock = \<lparr>now = 1700000000000, month = 10, year = 2023\<rparr>"

definition exampleSubscription :: subscription where
  "exampleSubscription =
     \<lparr>subscription_id = ''sub_1'', customer = ''cus_1'', current_period_end = 1702592000,
      stripe_status = ''active'', cancel_at_period_end = False\<rparr>"

definition exampleEnv :: env where
  "exampleEnv =
     \<lparr>jwtVerify = (\<lambda>t. if t = ''token-u1'' then Some ''u1'' else None),
      storageFault = (\<lambda>c. None),
      authClock = exampleClock, gateClock = exampleClock, txClock = exampleClock,
      startTime = 1700000000000, endTime = 1700000000900, catchTime = 1700000000950,
      openai = Inr \<lparr>content = ''Thank you for visiting us!'', total_tokens = 120,
                     prompt_tokens = 90, completion_tokens = 30\<rparr>,
      rateLimited = False,
      builtinProperty = (\<lambda>k p. JUndefined),
      constructEvent = (\<lambda>payload sig secret. Inl ''No signatures found matching the expected signature for payload''),
      webhookSecret = Some ''whsec_test'',
      subscriptionsRetrieve =
        (\<lambda>sid. if sid = ''sub_1'' then Inr exampleSubscription
               else Inl \<lparr>code = Some ''resource_missing'', message = ''No such subscription''\<rparr>),
      customersRetrieve = (\<lambda>cid. Inr \<lparr>customer_id = cid\<rparr>),
      webhookNow = 1700000000000,
      validatorTrim = asciiTrim,
      validatorIsLength = (\<lambda>t lo hi. lo \<le> length t \<and> length t \<le> hi)\<rparr>"

definition exampleRequest :: request where
  "exampleRequest =
     \<lparr>authorization = Some ''Bearer token-u1'',
      reqReviewText = ''  The food was great and the staff friendly. '',
      reqTone = ''friendly'', reqLanguage = Some ''ro'', reqBusinessType = None\<rparr>"

definition exampleStore :: "user \<Rightarrow> int \<Rightarrow> store" where
  "exampleStore u n =
     \<lparr>users = [u], usage = [(user_id u, 10, 2023) \<mapsto> n], apiCalls = [], oplog = []\<rparr>"

definition trialUser :: user where
  "trialUser = exampleUser\<lparr>subscriptionExpiresAt := Some 1800000000000\<rparr>"

definition enterpriseUser :: user where
  "enterpriseUser =
     exampleUser\<lparr>subscriptionPlan := ''enterprise'', monthlyLimit := - 1,
                 subscriptionExpiresAt := Some 1800000000000\<rparr>"

definition quotaError :: js_error where
  "quotaError = \<lparr>code = Some ''insufficient_quota'', message = ''You exceeded your current quota''\<rparr>"

definition providerDownEnv :: env where
  "providerDownEnv = exampleEnv\<lparr>openai := Inl quotaError\<rparr>"

definition lapsedUser :: user where
  "lapsedUser = exampleUser\<lparr>subscriptionExpiresAt := Some 1600000000000\<rparr>"

definition databaseDown :: js_error where
  "databaseDown = \<lparr>code = Some ''P1001'', message = ''Cannot reach database server''\<rparr>"

definition insertFailsEnv :: env where
  "insertFailsEnv =
     exampleEnv\<lparr>storageFault :=
       (\<lambda>c. if c = ApiCallCreate \<or> c = ApiCallCreateFailure then Some databaseDown else None)\<rparr>"

definition exampleWebhookRequest :: webhook_request where
  "exampleWebhookRequest =
     \<lparr>rawBody = ''{type: invoice.payment_failed}'', stripeSignature = Some ''t=1,v1=bad''\<rparr>"

definition exampleSession :: session where
  "exampleSession =
     \<lparr>metadata_userId = ''u1'', metadata_planId = ''basic'', session_subscription = ''sub_1''\<rparr>"

definition signedRequest :: webhook_request where
  "signedRequest = \<lparr>rawBody = ''{id: evt_1}'', stripeSignature = Some ''t=1,v1=good''\<rparr>"

text \<open>An outside world in which the signature of \<open>signedRequest\<close> verifies and the
  payload is the given event.\<close>

definition deliveringEnv :: "stripe_event \<Rightarrow> env" where
  "deliveringEnv event =
     exampleEnv\<lparr>constructEvent :=
       (\<lambda>payload sig secret.
          if sig = Some ''t=1,v1=good'' \<and> secret = Some ''whsec_test'' then Inr event
          else Inl ''No signatures found matching the expected signature for payload'')\<rparr>"

definition paidUser :: user where
  "paidUser =
     exampleUser\<lparr>subscriptionPlan := ''basic'', subscriptionStatus := ''active'',
                 subscriptionExpiresAt := Some 1702592000000,
                 stripeSubscriptionId := Some ''sub_1''\<rparr>"

text \<open>The same subscription after a renewal, with a later period end, and an outside
  world in which Stripe reports it.\<close>

definition laterSubscription :: subscription where
  "laterSubscription = exampleSubscription\<lparr>current_period_end := 1705270400\<rparr>"

definition renewedEnv :: "stripe_event \<Rightarrow> env" where
  "renewedEnv event =
     (deliveringEnv event)\<lparr>subscriptionsRetrieve :=
       (\<lambda>sid. if sid = ''sub_1'' then Inr laterSubscription
              else Inl \<lparr>code = Some ''resource_missing'', message = ''No such subscription''\<rparr>)\<rparr>"

section \<open>Properties\<close>

subsection \<open>The store calls\<close>

lemma logged_simps [simp]:
  "users (logged c s) = users s"
  "usage (logged c s) = usage s"
  "apiCalls (logged c s) = apiCalls s"
  "oplog (logged c s) = oplog s @ [c]"
  by (simp_all add: logged_def)

lemma currentUsageOf_logged [simp]: "currentUsageOf (logged c s) u k = currentUsageOf s u k"
  by (simp add: currentUsageOf_def)

subsection \<open>The fallback reply\<close>

lemma enProfessional_nonempty: "enProfessional \<noteq> []"
  by (simp add: enProfessional_def)

lemma responses_other: "lang \<noteq> ''en'' \<Longrightarrow> map_of responses lang = None"
  by (simp add: responses_def)

lemma fallback_other_language:
  assumes "lang \<noteq> ''en''" "lang \<notin> set objectPrototypeKeys"
  shows "generateFallbackResponse b r tn lang = JString enProfessional"
  using assms by (simp add: generateFallbackResponse_def responses_other)

lemma fallback_own_tone:
  assumes "tn \<in> set tones"
  shows "\<exists>t. generateFallbackResponse b r tn ''en'' = JString t \<and> t \<noteq> []"
proof -
  from assms consider "tn = ''professional''" | "tn = ''friendly''" | "tn = ''apologetic''"
    | "tn = ''grateful''"
    by (auto simp add: tones_def)
  then show ?thesis
    by cases (simp_all add: generateFallbackResponse_def responses_def enProfessional_nonempty)
qed

lemma fallback_unknown_tone:
  assumes "tn \<notin> set tones" "tn \<notin> set objectPrototypeKeys"
  shows "generateFallbackResponse b r tn ''en'' = JString enProfessional"
  using assms
  by (simp add: generateFallbackResponse_def responses_def tones_def)

subsection \<open>The middleware of routes/reviews.js\<close>

lemma authenticateAndCheckUsage_resolved:
  assumes "authenticated e req s u"
  shows "authenticateAndCheckUsage e req s =
     (if isActive u = False then (Respond userNotFoundOrInactive, logged UserFindUnique s)
      else if isSubscriptionActive u (authClock e) = False
        then (Respond subscriptionExpired, logged UserFindUnique s)
      else if monthlyLimit u \<noteq> - 1 \<and> currentUsageOf s u (authClock e) \<ge> monthlyLimit u
        then (Respond (usageLimitReached (currentUsageOf s u (authClock e)) (monthlyLimit u)
                         (authClock e)), logged UserFindUnique s)
      else (Next (u, currentUsageOf s u (authClock e)), logged UserFindUnique s))"
  using assms
  by (auto simp add: authenticated_def authenticateAndCheckUsage_def user_findUnique_def Let_def
      split: option.splits)

lemma languages_not_inherited: "lang \<in> set languages \<Longrightarrow> lang \<notin> set objectPrototypeKeys"
  by (auto simp add: languages_def objectPrototypeKeys_def)

lemma tones_not_inherited: "tn \<in> set tones \<Longrightarrow> tn \<notin> set objectPrototypeKeys"
  by (auto simp add: tones_def objectPrototypeKeys_def)

lemma generateValidation_passed:
  assumes "generateValidation e req = []"
  shows "reqTone req \<in> set tones"
    and "reqLanguage req = Some l \<Longrightarrow> l \<in> set languages"
  using assms
  by (auto simp add: generateValidation_def split: if_splits option.splits)

lemma fallback_validated:
  assumes "tn \<in> set tones" "lang \<in> set languages"
  shows "\<exists>t. generateFallbackResponse b r tn lang = JString t \<and> t \<noteq> []"
proof (cases "lang = ''en''")
  case True
  with fallback_own_tone [OF assms(1)] show ?thesis by simp
next
  case False
  with fallback_other_language [OF False languages_not_inherited [OF assms(2)]]
  show ?thesis by (simp add: enProfessional_nonempty)
qed


lemma generate_commits:
  assumes "generateValidation e req = []"
    and "storageFault e UsageUpsert = None"
    and "storageFault e ApiCallCreate = None"
    and "callProvider e (validatorTrim e (reqReviewText req)) (reqTone req)
           (case reqLanguage req of None \<Rightarrow> ''en'' | Some l \<Rightarrow> l) = (JString t, tok, c)"
  shows "\<exists>s'. generate e req u s =
           (generated (JString t) tok c (endTime e - startTime e)
              (case reqLanguage req of None \<Rightarrow> ''en'' | Some l \<Rightarrow> l) (reqTone req)
              (case usage s (user_id u, month (txClock e), year (txClock e)) of
                 None \<Rightarrow> 1 | Some m \<Rightarrow> m + 1)
              (monthlyLimit u), s')
         \<and> users s' = users s
         \<and> usage s' = (usage s)((user_id u, month (txClock e), year (txClock e)) \<mapsto>
              (case usage s (user_id u, month (txClock e), year (txClock e)) of
                 None \<Rightarrow> 1 | Some m \<Rightarrow> m + 1))
         \<and> apiCalls s' = apiCalls s @
              [\<lparr>userId = user_id u, reviewText = take 500 (validatorTrim e (reqReviewText req)),
                responseText = take 500 t,
                language = (case reqLanguage req of None \<Rightarrow> ''en'' | Some l \<Rightarrow> l),
                tone = reqTone req, model = ''gpt-4'',
                businessType = Some (case reqBusinessType req of None \<Rightarrow> ''general''
                                     | Some b \<Rightarrow> b),
                tokensUsed = tok, cost = c, duration = endTime e - startTime e,
                success = True, errorMessage = None\<rparr>]"
  using assms
  by (simp add: generate_def Let_def prisma_transaction_def transactionCallback_def usage_upsert_def
      apiCall_create_def)

text \<open>Whatever happens, the handler of routes/reviews.js leaves the usage counter and the
  audit rows either both as they were or both written.\<close>

lemma generate_atomic:
  "(usage (snd (generate e req u s)) = usage s \<and> apiCalls (snd (generate e req u s)) = apiCalls s)
   \<or> (usage (snd (generate e req u s)) =
         (usage s)((user_id u, month (txClock e), year (txClock e)) \<mapsto>
            (case usage s (user_id u, month (txClock e), year (txClock e)) of
               None \<Rightarrow> 1 | Some m \<Rightarrow> m + 1))
       \<and> (\<exists>row. apiCalls (snd (generate e req u s)) = apiCalls s @ [row])
       \<and> status (fst (generate e req u s)) = 200)"
  by (auto simp add: generate_def Let_def prisma_transaction_def transactionCallback_def usage_upsert_def
      apiCall_create_def generated_def res_json_def
      split: prod.splits option.splits sum.splits js_value.splits)

lemma status_generated [simp]: "status (generated t tok c d l tn n m) = 200"
  by (simp add: generated_def res_json_def)

lemma status_usageLimitReached [simp]: "status (usageLimitReached c l k) = 429"
  by (simp add: usageLimitReached_def)

lemma generated_fields [simp]:
  "jsonPath [''success''] (body (generated t tok c d l tn n m)) = Some (JBool True)"
  "jsonPath [''usage'', ''current''] (body (generated t tok c d l tn n m)) = Some (JNum n)"
  "jsonPath [''usage'', ''limit''] (body (generated t tok c d l tn n m)) = Some (JNum m)"
  "jsonPath [''usage'', ''remaining''] (body (generated t tok c d l tn n m)) =
     Some (JNum (remaining m n))"
  by (simp_all add: generated_def res_json_def)


subsection \<open>The older route\<close>

lemma authenticateToken_resolved:
  assumes "authenticated e req s u"
  shows "authenticateToken e req s =
     (if dateValue (subscriptionExpiresAt u) < now (authClock e)
      then (Respond subscriptionHasExpired, logged UserFindUnique s)
      else (Next u, logged UserFindUnique s))"
  using assms
  by (auto simp add: authenticated_def authenticateToken_def user_findUnique_def
      split: option.splits)

lemma userLimitOf_number:
  "userLimitOf p = JNumber n \<longleftrightarrow>
     (p = ''free'' \<and> n = 10) \<or> (p = ''basic'' \<and> n = 500) \<or> (p = ''premium'' \<and> n = 2000)
     \<or> (p = ''enterprise'' \<and> n = - 1)
     \<or> (p \<notin> set (map fst planLimits) \<and> p \<notin> set objectPrototypeKeys \<and> n = 0)"
  by (auto simp add: userLimitOf_def planLimits_def Let_def)


lemma status_generatedOlder [simp]: "status (generatedOlder t tok c d l tn n m) = 200"
  by (simp add: generatedOlder_def res_json_def)

lemma status_planLimitExceeded [simp]: "status (planLimitExceeded c l p) = 429"
  by (simp add: planLimitExceeded_def)

lemma generatedOlder_fields [simp]:
  "jsonPath [''success''] (body (generatedOlder t tok c d l tn n planLimit)) = Some (JBool True)"
  "jsonPath [''usage'', ''current''] (body (generatedOlder t tok c d l tn n planLimit)) =
     Some (JNum n)"
  "jsonPath [''usage'', ''limit''] (body (generatedOlder t tok c d l tn n (JNumber k))) =
     Some (JNum k)"
  "jsonPath [''usage'', ''remaining''] (body (generatedOlder t tok c d l tn n planLimit)) =
     Some (remainingOf planLimit n)"
  by (simp_all add: generatedOlder_def res_json_def jsonProperty_def
      split: js_value.splits)


lemma example_authenticated:
  "authenticated exampleEnv exampleRequest (exampleStore exampleUser n) exampleUser"
  by (simp add: authenticated_def exampleEnv_def exampleRequest_def exampleStore_def
      exampleUser_def bearerToken_def)


subsection \<open>The quota boundary\<close>








subsection \<open>The unlimited sentinel\<close>

lemma authenticated_usage [simp]:
  "authenticated e req (s\<lparr>usage := m\<rparr>) u = authenticated e req s u"
  by (simp add: authenticated_def split: option.splits)

lemma status_other_responses [simp]:
  "status userNotFoundOrInactive = 401"
  "status subscriptionExpired = 403"
  "status limitsCheckFailed = 500"
  by (simp_all add: userNotFoundOrInactive_def subscriptionExpired_def limitsCheckFailed_def)

lemma decidePlanLimit_unlimited:
  assumes "userLimitOf (subscriptionPlan u) = JNumber (- 1)"
  shows "decidePlanLimit u n s = (Next (n, JNumber (- 1)), s)"
  using assms by (simp add: decidePlanLimit_def)

lemma checkPlanLimits_unlimited:
  assumes "userLimitOf (subscriptionPlan u) = JNumber (- 1)"
    and "checkPlanLimits e u s = (Respond r, s')"
  shows "status r = 500"
  using assms
  by (auto simp add: checkPlanLimits_def Let_def usage_findUnique_def usage_create_def
      decidePlanLimit_unlimited split: option.splits)

text \<open>
  Claim C9. A user whose quota is the unlimited sentinel -1 is never rejected by the
  quota gate, whatever the request count of the period. In routes/reviews.js the quota is
  the user's \<open>monthlyLimit\<close>: no response of the middleware has status 429, and an
  active user with a valid subscription passes with every count \<open>n\<close>. In the older route
  the quota is the plan's entry in \<open>planLimits\<close>: the decision passes every count, and
  \<open>checkPlanLimits\<close> answers only when the store fails.
\<close>

theorem unlimited_quota_never_rejects:
  "(authenticated e req s u \<and> monthlyLimit u = - 1 \<longrightarrow>
      (\<forall>r s'. authenticateAndCheckUsage e req s = (Respond r, s') \<longrightarrow> status r \<noteq> 429)
      \<and> (isActive u \<and> isSubscriptionActive u (authClock e) \<longrightarrow>
           (\<forall>n. authenticateAndCheckUsage e req
                   (s\<lparr>usage := (usage s)((user_id u, month (authClock e), year (authClock e))
                                    \<mapsto> n)\<rparr>) =
                 (Next (u, n),
                  logged UserFindUnique
                    (s\<lparr>usage := (usage s)((user_id u, month (authClock e), year (authClock e))
                                    \<mapsto> n)\<rparr>)))))
   \<and> (userLimitOf (subscriptionPlan u) = JNumber (- 1) \<longrightarrow>
      (\<forall>n. decidePlanLimit u n s = (Next (n, JNumber (- 1)), s))
      \<and> (\<forall>r s'. checkPlanLimits e u s = (Respond r, s') \<longrightarrow> status r \<noteq> 429))"
proof (intro conjI impI allI)
  fix r s'
  assume a: "authenticated e req s u \<and> monthlyLimit u = - 1"
    and r: "authenticateAndCheckUsage e req s = (Respond r, s')"
  from a r show "status r \<noteq> 429"
    by (auto simp add: authenticateAndCheckUsage_resolved split: if_splits)
next
  fix n
  assume a: "authenticated e req s u \<and> monthlyLimit u = - 1"
    and b: "isActive u \<and> isSubscriptionActive u (authClock e)"
  let ?s = "s\<lparr>usage := (usage s)((user_id u, month (authClock e), year (authClock e)) \<mapsto> n)\<rparr>"
  from a have "authenticated e req ?s u" by simp
  from authenticateAndCheckUsage_resolved [OF this] a b
  show "authenticateAndCheckUsage e req ?s = (Next (u, n), logged UserFindUnique ?s)"
    by (simp add: currentUsageOf_def)
next
  fix n
  assume "userLimitOf (subscriptionPlan u) = JNumber (- 1)"
  then show "decidePlanLimit u n s = (Next (n, JNumber (- 1)), s)"
    by (rule decidePlanLimit_unlimited)
next
  fix r s'
  assume "userLimitOf (subscriptionPlan u) = JNumber (- 1)"
    and "checkPlanLimits e u s = (Respond r, s')"
  then have "status r = 500" by (rule checkPlanLimits_unlimited)
  then show "status r \<noteq> 429" by simp
qed

lemma example_authenticated_enterprise:
  "authenticated exampleEnv exampleRequest (exampleStore enterpriseUser n) enterpriseUser"
  by (simp add: authenticated_def exampleEnv_def exampleRequest_def exampleStore_def
      exampleUser_def enterpriseUser_def bearerToken_def)

theorem unlimited_quota_never_rejects_witness:
  "authenticateAndCheckUsage exampleEnv exampleRequest (exampleStore enterpriseUser 1000000) =
     (Next (enterpriseUser, 1000000), logged UserFindUnique (exampleStore enterpriseUser 1000000))
   \<and> decidePlanLimit enterpriseUser 1000000 (exampleStore enterpriseUser 1000000) =
     (Next (1000000, JNumber (- 1)), exampleStore enterpriseUser 1000000)"
proof -
  have u: "monthlyLimit enterpriseUser = - 1" "isActive enterpriseUser"
    "isSubscriptionActive enterpriseUser (authClock exampleEnv)"
    "userLimitOf (subscriptionPlan enterpriseUser) = JNumber (- 1)"
    by (simp_all add: enterpriseUser_def exampleUser_def isSubscriptionActive_def exampleEnv_def
        exampleClock_def dateValue_def userLimitOf_def planLimits_def)
  have s: "(exampleStore enterpriseUser 0)
       \<lparr>usage := (usage (exampleStore enterpriseUser 0))
          ((user_id enterpriseUser, month (authClock exampleEnv), year (authClock exampleEnv))
             \<mapsto> 1000000)\<rparr> = exampleStore enterpriseUser 1000000"
    by (simp add: exampleStore_def exampleEnv_def exampleClock_def)
  from unlimited_quota_never_rejects [of exampleEnv exampleRequest "exampleStore enterpriseUser 0"
      enterpriseUser] example_authenticated_enterprise [of 0] u
  have "authenticateAndCheckUsage exampleEnv exampleRequest
          ((exampleStore enterpriseUser 0)
             \<lparr>usage := (usage (exampleStore enterpriseUser 0))
                ((user_id enterpriseUser, month (authClock exampleEnv),
                  year (authClock exampleEnv)) \<mapsto> 1000000)\<rparr>) =
        (Next (enterpriseUser, 1000000),
         logged UserFindUnique
           ((exampleStore enterpriseUser 0)
              \<lparr>usage := (usage (exampleStore enterpriseUser 0))
                 ((user_id enterpriseUser, month (authClock exampleEnv),
                   year (authClock exampleEnv)) \<mapsto> 1000000)\<rparr>))"
    by blast
  then have a: "authenticateAndCheckUsage exampleEnv exampleRequest
      (exampleStore enterpriseUser 1000000) =
     (Next (enterpriseUser, 1000000), logged UserFindUnique (exampleStore enterpriseUser 1000000))"
    by (simp only: s)
  from unlimited_quota_never_rejects [of exampleEnv exampleRequest
      "exampleStore enterpriseUser 1000000" enterpriseUser] u
  have b: "decidePlanLimit enterpriseUser 1000000 (exampleStore enterpriseUser 1000000) =
     (Next (1000000, JNumber (- 1)), exampleStore enterpriseUser 1000000)"
    by blast
  from a b show ?thesis by simp
qed

subsection \<open>The fallback reply, for every input\<close>

lemma fallback_not_inherited:
  assumes "lang \<notin> set objectPrototypeKeys"
    and "lang = ''en'' \<longrightarrow> tn \<notin> set objectPrototypeKeys"
  shows "(\<exists>t. generateFallbackResponse b r tn lang = JString t \<and> t \<noteq> [])
       \<and> (lang \<noteq> ''en'' \<longrightarrow>
            generateFallbackResponse b r tn lang = JString enProfessional)"
proof (cases "lang = ''en''")
  case True
  show ?thesis
  proof (cases "tn \<in> set tones")
    case True
    with \<open>lang = ''en''\<close> fallback_own_tone [of tn b r] show ?thesis by simp
  next
    case False
    with \<open>lang = ''en''\<close> assms(2) fallback_unknown_tone [of tn b r]
    show ?thesis by (simp add: enProfessional_nonempty)
  qed
next
  case False
  with assms(1) fallback_other_language [of lang b r tn]
  show ?thesis by (simp add: enProfessional_nonempty)
qed

text \<open>
  Claim C10. \<open>generateFallbackResponse\<close> is private to routes/reviews.js and is called
  in one place, after \<open>generateValidation\<close> has accepted the tone and the language (an
  absent language being \<open>en\<close>). For every review text and every tone and language it can
  so be called with, it returns a non-empty string, and for every language other than
  \<open>en\<close>, that is for \<open>ro\<close>, \<open>es\<close>, \<open>fr\<close>, \<open>de\<close> and \<open>it\<close>, the English professional
  text, whatever the tone. The second conjunct says the same of every other tone and
  language that is not a key objects inherit.
\<close>

theorem fallback_is_english_professional:
  "(tn \<in> set tones \<and> lang \<in> set languages \<longrightarrow>
      (\<exists>t. generateFallbackResponse b r tn lang = JString t \<and> t \<noteq> [])
      \<and> (lang \<noteq> ''en'' \<longrightarrow>
           generateFallbackResponse b r tn lang =
             JString ''Thank you for your feedback. We appreciate you taking the time to share your experience with us.''))
   \<and> (lang \<notin> set objectPrototypeKeys \<and> (lang = ''en'' \<longrightarrow> tn \<notin> set objectPrototypeKeys) \<longrightarrow>
      (\<exists>t. generateFallbackResponse b r tn lang = JString t \<and> t \<noteq> [])
      \<and> (lang \<noteq> ''en'' \<longrightarrow>
           generateFallbackResponse b r tn lang =
             JString ''Thank you for your feedback. We appreciate you taking the time to share your experience with us.''))"
proof (intro conjI impI)
  assume v: "tn \<in> set tones \<and> lang \<in> set languages"
  then have "lang \<notin> set objectPrototypeKeys" "tn \<notin> set objectPrototypeKeys"
    by (simp_all add: languages_not_inherited tones_not_inherited)
  then have both: "(\<exists>t. generateFallbackResponse b r tn lang = JString t \<and> t \<noteq> [])
       \<and> (lang \<noteq> ''en'' \<longrightarrow>
            generateFallbackResponse b r tn lang = JString enProfessional)"
    by (intro fallback_not_inherited) simp_all
  from both show "\<exists>t. generateFallbackResponse b r tn lang = JString t \<and> t \<noteq> []"
    by blast
  assume "lang \<noteq> ''en''"
  with both show "generateFallbackResponse b r tn lang =
      JString ''Thank you for your feedback. We appreciate you taking the time to share your experience with us.''"
    by (simp add: enProfessional_def)
next
  assume k: "lang \<notin> set objectPrototypeKeys \<and> (lang = ''en'' \<longrightarrow> tn \<notin> set objectPrototypeKeys)"
  then have both: "(\<exists>t. generateFallbackResponse b r tn lang = JString t \<and> t \<noteq> [])
       \<and> (lang \<noteq> ''en'' \<longrightarrow>
            generateFallbackResponse b r tn lang = JString enProfessional)"
    by (intro fallback_not_inherited) simp_all
  from both show "\<exists>t. generateFallbackResponse b r tn lang = JString t \<and> t \<noteq> []"
    by blast
  assume "lang \<noteq> ''en''"
  with both show "generateFallbackResponse b r tn lang =
      JString ''Thank you for your feedback. We appreciate you taking the time to share your experience with us.''"
    by (simp add: enProfessional_def)
qed

theorem fallback_is_english_professional_witness:
  "generateFallbackResponse (\<lambda>k p. JUndefined) ''Great food'' ''friendly'' ''ro'' =
     JString ''Thank you for your feedback. We appreciate you taking the time to share your experience with us.''
   \<and> generateFallbackResponse (\<lambda>k p. JUndefined) ''Great food'' ''grateful'' ''it'' =
     JString ''Thank you for your feedback. We appreciate you taking the time to share your experience with us.''
   \<and> (\<exists>t. generateFallbackResponse (\<lambda>k p. JUndefined) ''Great food'' ''apologetic'' ''en'' =
       JString t \<and> t \<noteq> [])
   \<and> generateFallbackResponse (\<lambda>k p. JUndefined) ''Great food'' ''casual'' ''pt'' =
     JString ''Thank you for your feedback. We appreciate you taking the time to share your experience with us.''"
proof -
  have accepted: "''friendly'' \<in> set tones" "''grateful'' \<in> set tones" "''apologetic'' \<in> set tones"
    "''ro'' \<in> set languages" "''it'' \<in> set languages" "''en'' \<in> set languages"
    by (simp_all add: tones_def languages_def)
  have other: "''pt'' \<notin> set objectPrototypeKeys"
    by (simp add: objectPrototypeKeys_def)
  from fallback_is_english_professional [of "''friendly''" "''ro''" "\<lambda>k p. JUndefined"
      "''Great food''"] accepted
  have a: "generateFallbackResponse (\<lambda>k p. JUndefined) ''Great food'' ''friendly'' ''ro'' =
     JString ''Thank you for your feedback. We appreciate you taking the time to share your experience with us.''"
    by simp
  from fallback_is_english_professional [of "''grateful''" "''it''" "\<lambda>k p. JUndefined"
      "''Great food''"] accepted
  have b: "generateFallbackResponse (\<lambda>k p. JUndefined) ''Great food'' ''grateful'' ''it'' =
     JString ''Thank you for your feedback. We appreciate you taking the time to share your experience with us.''"
    by simp
  from fallback_is_english_professional [of "''apologetic''" "''en''" "\<lambda>k p. JUndefined"
      "''Great food''"] accepted
  have c: "\<exists>t. generateFallbackResponse (\<lambda>k p. JUndefined) ''Great food'' ''apologetic'' ''en'' =
       JString t \<and> t \<noteq> []"
    by simp
  from fallback_is_english_professional [of "''casual''" "''pt''" "\<lambda>k p. JUndefined"
      "''Great food''"] other
  have d: "generateFallbackResponse (\<lambda>k p. JUndefined) ''Great food'' ''casual'' ''pt'' =
     JString ''Thank you for your feedback. We appreciate you taking the time to share your experience with us.''"
    by simp
  from a b c d show ?thesis by simp
qed

text \<open>The keys objects inherit are left out of the second conjunct because a lookup
  finds a built-in there. The validators reject such a tone or language, so the route
  never passes one.\<close>

lemma fallback_inherited_tone:
  "generateFallbackResponse (\<lambda>k p. JUndefined) ''Great food'' ''constructor'' ''en'' =
     JBuiltin ''constructor''
   \<and> ''constructor'' \<notin> set tones"
  by (simp add: generateFallbackResponse_def responses_def objectPrototypeKeys_def tones_def)

subsection \<open>A provider failure on the route of routes/reviews.js\<close>

lemma authenticateAndCheckUsage_tables:
  "users (snd (authenticateAndCheckUsage e req s)) = users s
   \<and> usage (snd (authenticateAndCheckUsage e req s)) = usage s
   \<and> apiCalls (snd (authenticateAndCheckUsage e req s)) = apiCalls s"
  by (simp add: authenticateAndCheckUsage_def user_findUnique_def Let_def
      split: option.splits)

text \<open>
  Claim C1. What the route does when the provider call fails: it answers 200 with the
  fallback text, and the audit row of the call has \<open>success = True\<close>, no error message,
  zero tokens and zero cost. The claim's \<open>success: false\<close> and its error message are not
  what the row holds.
\<close>

theorem provider_failure_audit_row:
  assumes "authenticateAndCheckUsage e req s = (Next (u, n), s1)"
    and "generateValidation e req = []"
    and "openai e = Inl err"
    and "storageFault e UsageUpsert = None"
    and "storageFault e ApiCallCreate = None"
  shows "\<exists>t requestCount s' row.
           generateFallbackResponse (builtinProperty e) (validatorTrim e (reqReviewText req)) (reqTone req)
             (case reqLanguage req of None \<Rightarrow> ''en'' | Some l \<Rightarrow> l) = JString t
         \<and> t \<noteq> []
         \<and> postGenerate e req s =
             (generated (JString t) 0 0 (endTime e - startTime e)
                (case reqLanguage req of None \<Rightarrow> ''en'' | Some l \<Rightarrow> l) (reqTone req)
                requestCount (monthlyLimit u), s')
         \<and> apiCalls s' = apiCalls s @ [row]
         \<and> success row = True \<and> errorMessage row = None
         \<and> tokensUsed row = 0 \<and> cost row = 0 \<and> responseText row = take 500 t"
proof -
  let ?lang = "case reqLanguage req of None \<Rightarrow> ''en'' | Some l \<Rightarrow> l"
  have "?lang \<in> set languages"
    using generateValidation_passed(2) [OF assms(2)]
    by (cases "reqLanguage req") (simp_all add: languages_def)
  from fallback_validated [OF generateValidation_passed(1) [OF assms(2)] this]
  obtain t where t: "generateFallbackResponse (builtinProperty e) (validatorTrim e (reqReviewText req))
      (reqTone req) ?lang = JString t" "t \<noteq> []"
    by blast
  with assms(3) have p: "callProvider e (validatorTrim e (reqReviewText req)) (reqTone req) ?lang =
      (JString t, 0, 0)"
    by (simp add: callProvider_def)
  from generate_commits [OF assms(2) assms(4) assms(5) p, of u s1]
  obtain s' where g: "generate e req u s1 =
      (generated (JString t) 0 0 (endTime e - startTime e) ?lang (reqTone req)
         (case usage s1 (user_id u, month (txClock e), year (txClock e)) of
            None \<Rightarrow> 1 | Some m \<Rightarrow> m + 1) (monthlyLimit u), s')"
    and rows: "apiCalls s' = apiCalls s1 @
       [\<lparr>userId = user_id u, reviewText = take 500 (validatorTrim e (reqReviewText req)),
         responseText = take 500 t, language = ?lang, tone = reqTone req, model = ''gpt-4'',
         businessType = Some (case reqBusinessType req of None \<Rightarrow> ''general'' | Some b \<Rightarrow> b),
         tokensUsed = 0, cost = 0, duration = endTime e - startTime e,
         success = True, errorMessage = None\<rparr>]"
    by blast
  from authenticateAndCheckUsage_tables [of e req s] assms(1)
  have "apiCalls s1 = apiCalls s" by simp
  with g rows t assms(1) show ?thesis
    by (auto simp add: postGenerate_def)
qed

theorem provider_failure_audit_row_witness:
  "\<exists>r s' row.
      postGenerate providerDownEnv exampleRequest (exampleStore exampleUser 3) = (r, s')
    \<and> status r = 200
    \<and> apiCalls s' = [row]
    \<and> success row = True \<and> errorMessage row = None
    \<and> tokensUsed row = 0 \<and> cost row = 0 \<and> responseText row = enProfessional"
proof -
  have auth: "authenticated providerDownEnv exampleRequest (exampleStore exampleUser 3)
      exampleUser"
    by (simp add: authenticated_def providerDownEnv_def exampleEnv_def exampleRequest_def
        exampleStore_def exampleUser_def bearerToken_def)
  have gate: "authenticateAndCheckUsage providerDownEnv exampleRequest
      (exampleStore exampleUser 3) =
      (Next (exampleUser, 3), logged UserFindUnique (exampleStore exampleUser 3))"
    by (simp add: authenticateAndCheckUsage_resolved [OF auth])
      (simp add: exampleUser_def isSubscriptionActive_def currentUsageOf_def exampleStore_def
        providerDownEnv_def exampleEnv_def exampleClock_def)
  have valid: "generateValidation providerDownEnv exampleRequest = []"
    by (simp add: generateValidation_def providerDownEnv_def exampleEnv_def exampleRequest_def
        asciiTrim_def asciiWhitespace_def tones_def languages_def)
  have world: "openai providerDownEnv = Inl quotaError"
    "storageFault providerDownEnv UsageUpsert = None"
    "storageFault providerDownEnv ApiCallCreate = None"
    by (simp_all add: providerDownEnv_def exampleEnv_def)
  have fb: "generateFallbackResponse (builtinProperty providerDownEnv)
      (validatorTrim providerDownEnv (reqReviewText exampleRequest)) (reqTone exampleRequest)
      (case reqLanguage exampleRequest of None \<Rightarrow> ''en'' | Some l \<Rightarrow> l) =
      JString enProfessional"
    by (simp add: exampleRequest_def fallback_other_language objectPrototypeKeys_def)
  have short: "take 500 enProfessional = enProfessional"
    by (simp add: enProfessional_def)
  from provider_failure_audit_row [OF gate valid world] fb short
  show ?thesis
    by (auto simp add: exampleStore_def)
qed

subsection \<open>The subscription check and the free tier\<close>

lemma subscriptionExpired_distinct:
  "subscriptionExpired \<noteq> userNotFoundOrInactive"
  "userNotFoundOrInactive \<noteq> subscriptionExpired"
  "subscriptionExpired \<noteq> usageLimitReached n l c"
  "usageLimitReached n l c \<noteq> subscriptionExpired"
  by (simp_all add: subscriptionExpired_def userNotFoundOrInactive_def usageLimitReached_def)

text \<open>In the middleware of routes/reviews.js the subscription check holds for every
  free-tier user, whatever the expiry timestamp, and such a user is never answered
  \<open>SUBSCRIPTION_EXPIRED\<close>.\<close>

lemma free_tier_always_valid:
  "subscriptionPlan u = ''free'' \<Longrightarrow> isSubscriptionActive u c"
  by (simp add: isSubscriptionActive_def)

lemma free_tier_never_expired:
  assumes "authenticated e req s u"
    and "subscriptionPlan u = ''free''"
  shows "authenticateAndCheckUsage e req s \<noteq> (Respond subscriptionExpired, s')"
  using assms free_tier_always_valid [of u "authClock e"]
  by (auto simp add: authenticateAndCheckUsage_resolved subscriptionExpired_distinct
      split: if_splits)

text \<open>
  Claim C2. The older route has no free-tier case: its \<open>authenticateToken\<close> answers a
  free-tier user whose expiry timestamp is before the clock (null counting as 0) with
  403 and \<open>subscriptionExpired: true\<close>, before any generation, while the check of
  routes/reviews.js holds for the same user at the same moment.
\<close>

theorem older_route_rejects_free_tier_user:
  assumes "authenticated e req s u"
    and "subscriptionPlan u = ''free''"
    and "dateValue (subscriptionExpiresAt u) < now (authClock e)"
  shows "postGenerateOlder e req s =
           (\<lparr>status = 403,
             body = JObj [(''error'', JStr ''Abonamentul a expirat''),
                          (''subscriptionExpired'', JBool True)]\<rparr>,
            logged UserFindUnique s)
       \<and> isSubscriptionActive u (authClock e)
       \<and> (\<forall>s'. authenticateAndCheckUsage e req s \<noteq> (Respond subscriptionExpired, s'))"
proof (intro conjI allI)
  have "authenticateToken e req s = (Respond subscriptionHasExpired, logged UserFindUnique s)"
    using assms(1,3) by (simp add: authenticateToken_resolved)
  then show "postGenerateOlder e req s =
           (\<lparr>status = 403,
             body = JObj [(''error'', JStr ''Abonamentul a expirat''),
                          (''subscriptionExpired'', JBool True)]\<rparr>,
            logged UserFindUnique s)"
    by (simp add: postGenerateOlder_def subscriptionHasExpired_def)
next
  show "isSubscriptionActive u (authClock e)"
    using assms(2) by (rule free_tier_always_valid)
next
  fix s'
  show "authenticateAndCheckUsage e req s \<noteq> (Respond subscriptionExpired, s')"
    using assms(1,2) by (rule free_tier_never_expired)
qed

lemma example_authenticated_lapsed:
  "authenticated exampleEnv exampleRequest (exampleStore lapsedUser n) lapsedUser"
  by (simp add: authenticated_def exampleEnv_def exampleRequest_def exampleStore_def
      exampleUser_def lapsedUser_def bearerToken_def)

theorem older_route_rejects_free_tier_user_witness:
  "subscriptionPlan lapsedUser = ''free''
   \<and> postGenerateOlder exampleEnv exampleRequest (exampleStore lapsedUser 3) =
       (\<lparr>status = 403,
         body = JObj [(''error'', JStr ''Abonamentul a expirat''),
                      (''subscriptionExpired'', JBool True)]\<rparr>,
        logged UserFindUnique (exampleStore lapsedUser 3))
   \<and> isSubscriptionActive lapsedUser exampleClock
   \<and> subscriptionPlan exampleUser = ''free'' \<and> subscriptionExpiresAt exampleUser = None
   \<and> postGenerateOlder exampleEnv exampleRequest (exampleStore exampleUser 3) =
       (\<lparr>status = 403,
         body = JObj [(''error'', JStr ''Abonamentul a expirat''),
                      (''subscriptionExpired'', JBool True)]\<rparr>,
        logged UserFindUnique (exampleStore exampleUser 3))"
proof -
  have free: "subscriptionPlan lapsedUser = ''free''" "subscriptionPlan exampleUser = ''free''"
    "subscriptionExpiresAt exampleUser = None"
    by (simp_all add: lapsedUser_def exampleUser_def)
  have late: "dateValue (subscriptionExpiresAt lapsedUser) < now (authClock exampleEnv)"
    "dateValue (subscriptionExpiresAt exampleUser) < now (authClock exampleEnv)"
    "authClock exampleEnv = exampleClock"
    by (simp_all add: lapsedUser_def exampleUser_def dateValue_def exampleEnv_def
        exampleClock_def)
  from older_route_rejects_free_tier_user [OF example_authenticated_lapsed [of 3] free(1)
      late(1)] late(3)
  have a: "postGenerateOlder exampleEnv exampleRequest (exampleStore lapsedUser 3) =
       (\<lparr>status = 403,
         body = JObj [(''error'', JStr ''Abonamentul a expirat''),
                      (''subscriptionExpired'', JBool True)]\<rparr>,
        logged UserFindUnique (exampleStore lapsedUser 3))"
    and b: "isSubscriptionActive lapsedUser exampleClock"
    by simp_all
  from older_route_rejects_free_tier_user [OF example_authenticated [of 3] free(2) late(2)]
  have c: "postGenerateOlder exampleEnv exampleRequest (exampleStore exampleUser 3) =
       (\<lparr>status = 403,
         body = JObj [(''error'', JStr ''Abonamentul a expirat''),
                      (''subscriptionExpired'', JBool True)]\<rparr>,
        logged UserFindUnique (exampleStore exampleUser 3))"
    by simp
  from free a b c show ?thesis by simp
qed

subsection \<open>The two writes of the older route\<close>

lemma status_generateError: "status (generateError err) \<noteq> 200"
  by (simp add: generateError_def)

text \<open>
  Claim C4. On the older route the counter update and the audit insert are two separate
  calls: when the insert throws after the update, the counter stays incremented and the
  catch block answers with an error; no row with \<open>success = True\<close> is written, and an
  audit row exists only if the catch block's own insert works.
\<close>

theorem older_route_counts_without_audit_row:
  assumes "generateValidationOlder e req = []"
    and "openai e = Inr c"
    and "storageFault e UsageUpdate = None"
    and "usage s (user_id u, month (txClock e), year (txClock e)) = Some n"
    and "storageFault e ApiCallCreate = Some err"
  shows "\<exists>s'. generateOlder e req u planLimit s = (generateError err, s')
         \<and> usage s' (user_id u, month (txClock e), year (txClock e)) = Some (n + 1)
         \<and> (storageFault e ApiCallCreateFailure \<noteq> None \<longrightarrow> apiCalls s' = apiCalls s)
         \<and> (storageFault e ApiCallCreateFailure = None \<longrightarrow>
              (\<exists>row. apiCalls s' = apiCalls s @ [row] \<and> success row = False))"
  using assms
  by (auto simp add: generateOlder_def generateOlderTry_def Let_def usage_increment_def
      apiCall_create_def split: option.splits)

theorem older_route_counts_without_audit_row_witness:
  "\<exists>r s'. generateOlder insertFailsEnv exampleRequest trialUser (JNumber 10)
             (exampleStore trialUser 3) = (r, s')
      \<and> status r = 500
      \<and> usage s' (''u1'', 10, 2023) = Some 4
      \<and> apiCalls s' = []"
proof -
  have valid: "generateValidationOlder insertFailsEnv exampleRequest = []"
    by (simp add: generateValidationOlder_def insertFailsEnv_def exampleEnv_def
        exampleRequest_def asciiTrim_def asciiWhitespace_def tones_def languages_def)
  have world: "openai insertFailsEnv =
      Inr \<lparr>content = ''Thank you for visiting us!'', total_tokens = 120,
           prompt_tokens = 90, completion_tokens = 30\<rparr>"
    "storageFault insertFailsEnv UsageUpdate = None"
    "storageFault insertFailsEnv ApiCallCreate = Some databaseDown"
    "storageFault insertFailsEnv ApiCallCreateFailure \<noteq> None"
    "txClock insertFailsEnv = exampleClock"
    by (simp_all add: insertFailsEnv_def exampleEnv_def)
  have row: "usage (exampleStore trialUser 3)
      (user_id trialUser, month (txClock insertFailsEnv), year (txClock insertFailsEnv)) = Some 3"
    by (simp add: exampleStore_def world exampleClock_def)
  have key: "(user_id trialUser, month (txClock insertFailsEnv), year (txClock insertFailsEnv))
      = (''u1'', 10, 2023)"
    by (simp add: trialUser_def exampleUser_def world exampleClock_def)
  have st: "status (generateError databaseDown) = 500"
    by (simp add: generateError_def databaseDown_def)
  from older_route_counts_without_audit_row [OF valid world(1) world(2) row
      world(3), of "JNumber 10"] world(4) key st
  show ?thesis
    by (auto simp add: exampleStore_def)
qed

subsection \<open>The Stripe webhook\<close>

text \<open>
  Claim C5. When the signature of a webhook request does not verify, the handler
  answers 400 and returns the store as it was: no row is changed, and the log of calls
  is the same, so neither the store nor Stripe was asked anything.
\<close>

theorem invalid_signature_rejected:
  assumes "constructEvent e (rawBody req) (stripeSignature req) (webhookSecret e) = Inl errMessage"
  shows "webhook e req s = (webhookError errMessage, s)
       \<and> status (fst (webhook e req s)) = 400
       \<and> users (snd (webhook e req s)) = users s
       \<and> oplog (snd (webhook e req s)) = oplog s"
  using assms by (simp add: webhook_def webhookError_def)

theorem invalid_signature_rejected_witness:
  "webhook exampleEnv exampleWebhookRequest (exampleStore exampleUser 3) =
     (webhookError ''No signatures found matching the expected signature for payload'',
      exampleStore exampleUser 3)
   \<and> oplog (snd (webhook exampleEnv exampleWebhookRequest (exampleStore exampleUser 3))) = []"
proof -
  have "constructEvent exampleEnv (rawBody exampleWebhookRequest)
      (stripeSignature exampleWebhookRequest) (webhookSecret exampleEnv) =
      Inl ''No signatures found matching the expected signature for payload''"
    by (simp add: exampleEnv_def)
  from invalid_signature_rejected [OF this, of "exampleStore exampleUser 3"]
  show ?thesis by (simp add: exampleStore_def)
qed

lemma find_user_map:
  assumes "\<And>x. user_id (g x) = user_id x"
  shows "(find (\<lambda>x. user_id x = uid) (map g xs) = None)
       = (find (\<lambda>x. user_id x = uid) xs = None)"
  using assms by (auto simp add: find_None_iff)

lemma user_update_users:
  "users (snd (user_update e uid f s)) =
     (if storageFault e UserUpdate = None \<and> find (\<lambda>x. user_id x = uid) (users s) \<noteq> None
      then map (\<lambda>x. if user_id x = uid then f x else x) (users s)
      else users s)"
  by (auto simp add: user_update_def split: option.splits)

lemma user_update_tables [simp]:
  "usage (snd (user_update e uid f s)) = usage s"
  "apiCalls (snd (user_update e uid f s)) = apiCalls s"
  by (simp_all add: user_update_def split: option.splits)

lemma handleCheckoutCompleted_users:
  "users (snd (handleCheckoutCompleted e sess s)) =
     (case subscriptionsRetrieve e (session_subscription sess) of
        Inl err \<Rightarrow> users s
      | Inr sub \<Rightarrow>
          if storageFault e UserUpdate = None
             \<and> find (\<lambda>x. user_id x = metadata_userId sess) (users s) \<noteq> None
          then map (\<lambda>x. if user_id x = metadata_userId sess
                         then x\<lparr>subscriptionPlan := metadata_planId sess,
                                subscriptionStatus := ''active'',
                                subscriptionExpiresAt := Some (current_period_end sub * 1000),
                                stripeSubscriptionId := Some (subscription_id sub)\<rparr>
                         else x) (users s)
          else users s)"
  by (auto simp add: handleCheckoutCompleted_def Let_def stripe_subscriptions_retrieve_def
      user_update_users split: sum.splits)

lemma handleCheckoutCompleted_tables [simp]:
  "usage (snd (handleCheckoutCompleted e sess s)) = usage s"
  "apiCalls (snd (handleCheckoutCompleted e sess s)) = apiCalls s"
  by (simp_all add: handleCheckoutCompleted_def Let_def stripe_subscriptions_retrieve_def
      split: sum.splits)

lemma handleCheckoutCompleted_twice:
  "users (snd (handleCheckoutCompleted e sess (snd (handleCheckoutCompleted e sess s)))) =
   users (snd (handleCheckoutCompleted e sess s))"
proof (cases "subscriptionsRetrieve e (session_subscription sess)")
  case (Inl err)
  then show ?thesis by (simp add: handleCheckoutCompleted_users)
next
  case (Inr sub)
  let ?g = "\<lambda>x. if user_id x = metadata_userId sess
                  then x\<lparr>subscriptionPlan := metadata_planId sess,
                         subscriptionStatus := ''active'',
                         subscriptionExpiresAt := Some (current_period_end sub * 1000),
                         stripeSubscriptionId := Some (subscription_id sub)\<rparr>
                  else x"
  have id: "\<And>x. user_id (?g x) = user_id x" by simp
  have twice: "map ?g (map ?g (users s)) = map ?g (users s)" by simp
  show ?thesis
    using Inr find_user_map [of ?g "metadata_userId sess" "users s", OF id] twice
    by (simp add: handleCheckoutCompleted_users [of e sess] del: map_map)
qed

lemma webhook_snd:
  "snd (webhook e req s) =
     (case constructEvent e (rawBody req) (stripeSignature req) (webhookSecret e) of
        Inl errMessage \<Rightarrow> s
      | Inr event \<Rightarrow> snd (processEvent e event s))"
  by (simp add: webhook_def split: sum.splits prod.splits)

text \<open>The handler reads the outside world in two places only: the answer of
  \<open>stripe.subscriptions.retrieve\<close> and whether \<open>prisma.user.update\<close> fails.\<close>

lemma handleCheckoutCompleted_same_answers:
  assumes "subscriptionsRetrieve e2 (session_subscription sess) =
             subscriptionsRetrieve e1 (session_subscription sess)"
    and "storageFault e2 UserUpdate = storageFault e1 UserUpdate"
  shows "users (snd (handleCheckoutCompleted e2 sess t)) =
         users (snd (handleCheckoutCompleted e1 sess t))"
  using assms by (simp add: handleCheckoutCompleted_users split: sum.splits)

text \<open>A second delivery that is processed leaves the rows as that delivery alone
  would: it overwrites the four columns the first one wrote.\<close>

lemma handleCheckoutCompleted_overwrites:
  assumes "subscriptionsRetrieve e2 (session_subscription sess) = Inr sub"
    and "storageFault e2 UserUpdate = None"
  shows "users (snd (handleCheckoutCompleted e2 sess (snd (handleCheckoutCompleted e1 sess s)))) =
         users (snd (handleCheckoutCompleted e2 sess s))"
proof -
  define g :: "subscription \<Rightarrow> user \<Rightarrow> user"
    where "g = (\<lambda>sub x. if user_id x = metadata_userId sess
                  then x\<lparr>subscriptionPlan := metadata_planId sess,
                         subscriptionStatus := ''active'',
                         subscriptionExpiresAt := Some (current_period_end sub * 1000),
                         stripeSubscriptionId := Some (subscription_id sub)\<rparr>
                  else x)"
  define s1 where "s1 = snd (handleCheckoutCompleted e1 sess s)"
  have id: "\<And>sub1 x. user_id (g sub1 x) = user_id x"
    by (simp add: g_def)
  have over: "\<And>sub1 xs. map (g sub) (map (g sub1) xs) = map (g sub) xs"
    by (simp add: g_def)
  have none: "\<And>sub1. find (\<lambda>x. user_id x = metadata_userId sess) (users s) = None
      \<Longrightarrow> map (g sub1) (users s) = users s"
    by (rule map_idI) (auto simp add: find_None_iff g_def)
  have second: "\<And>t. users (snd (handleCheckoutCompleted e2 sess t)) =
      (if find (\<lambda>x. user_id x = metadata_userId sess) (users t) \<noteq> None
       then map (g sub) (users t) else users t)"
    using assms by (simp add: handleCheckoutCompleted_users g_def)
  have first: "users s1 = users s \<or> (\<exists>sub1. users s1 = map (g sub1) (users s))"
    unfolding s1_def g_def
    by (cases "subscriptionsRetrieve e1 (session_subscription sess)")
      (auto simp add: handleCheckoutCompleted_users)
  from first consider "users s1 = users s" | sub1 where "users s1 = map (g sub1) (users s)"
    by blast
  then have "users (snd (handleCheckoutCompleted e2 sess s1)) =
      users (snd (handleCheckoutCompleted e2 sess s))"
  proof cases
    case 1
    then show ?thesis by (simp add: second)
  next
    case 2
    with find_user_map [of "g sub1" "metadata_userId sess" "users s", OF id] over none
    show ?thesis by (simp add: second)
  qed
  then show ?thesis by (simp add: s1_def)
qed

lemma deliveringEnv_simps [simp]:
  "constructEvent (deliveringEnv event) (rawBody signedRequest) (stripeSignature signedRequest)
     (webhookSecret (deliveringEnv event)) = Inr event"
  "storageFault (deliveringEnv event) c = None"
  "subscriptionsRetrieve (deliveringEnv event) ''sub_1'' = Inr exampleSubscription"
  "customersRetrieve (deliveringEnv event) cid = Inr \<lparr>customer_id = cid\<rparr>"
  "webhookNow (deliveringEnv event) = 1700000000000"
  by (simp_all add: deliveringEnv_def exampleEnv_def signedRequest_def)

lemma renewedEnv_simps [simp]:
  "constructEvent (renewedEnv event) (rawBody signedRequest) (stripeSignature signedRequest)
     (webhookSecret (renewedEnv event)) = Inr event"
  "storageFault (renewedEnv event) c = None"
  "subscriptionsRetrieve (renewedEnv event) ''sub_1'' = Inr laterSubscription"
  by (simp_all add: renewedEnv_def deliveringEnv_def exampleEnv_def signedRequest_def)

text \<open>The same event delivered twice, Stripe reporting a later period end at the
  second delivery: the expiry after both deliveries is the later one, not the one a
  single delivery left.\<close>

theorem checkout_replay_after_renewal:
  "constructEvent (deliveringEnv (CheckoutSessionCompleted exampleSession))
     (rawBody signedRequest) (stripeSignature signedRequest)
     (webhookSecret (deliveringEnv (CheckoutSessionCompleted exampleSession))) =
     Inr (CheckoutSessionCompleted exampleSession)
   \<and> constructEvent (renewedEnv (CheckoutSessionCompleted exampleSession))
     (rawBody signedRequest) (stripeSignature signedRequest)
     (webhookSecret (renewedEnv (CheckoutSessionCompleted exampleSession))) =
     Inr (CheckoutSessionCompleted exampleSession)
   \<and> map subscriptionExpiresAt
       (users (snd (webhook (deliveringEnv (CheckoutSessionCompleted exampleSession)) signedRequest
          (exampleStore exampleUser 3)))) = [Some 1702592000000]
   \<and> map subscriptionExpiresAt
       (users (snd (webhook (renewedEnv (CheckoutSessionCompleted exampleSession)) signedRequest
          (snd (webhook (deliveringEnv (CheckoutSessionCompleted exampleSession)) signedRequest
             (exampleStore exampleUser 3)))))) = [Some 1705270400000]
   \<and> users (snd (webhook (renewedEnv (CheckoutSessionCompleted exampleSession)) signedRequest
          (snd (webhook (deliveringEnv (CheckoutSessionCompleted exampleSession)) signedRequest
             (exampleStore exampleUser 3))))) \<noteq>
     users (snd (webhook (deliveringEnv (CheckoutSessionCompleted exampleSession)) signedRequest
          (exampleStore exampleUser 3)))"
  by (simp add: webhook_snd handleCheckoutCompleted_users exampleSession_def
      exampleStore_def exampleUser_def exampleSubscription_def laterSubscription_def)

text \<open>
  Claim C6, as amended. Let the same \<open>checkout.session.completed\<close> event be delivered
  twice, \<open>e1\<close> being the outside world at the first delivery and \<open>e2\<close> at the second.
  If \<open>stripe.subscriptions.retrieve\<close> gives the same answer at both and
  \<open>prisma.user.update\<close> fails at both or at neither, the user rows after the two
  deliveries, and so each user's plan, status, expiry and provider subscription id,
  are the rows after the first. In general, when the second delivery retrieves a
  subscription and its update does not fail, the rows after both are the rows the second
  delivery alone gives: the expiry and the subscription id are read from Stripe at each
  delivery, not from the event. The other tables are not touched.
\<close>

theorem checkout_completed_idempotent:
  assumes "constructEvent e1 (rawBody req) (stripeSignature req) (webhookSecret e1) =
             Inr (CheckoutSessionCompleted sess)"
    and "constructEvent e2 (rawBody req) (stripeSignature req) (webhookSecret e2) =
             Inr (CheckoutSessionCompleted sess)"
  shows "(subscriptionsRetrieve e2 (session_subscription sess) =
            subscriptionsRetrieve e1 (session_subscription sess)
          \<and> storageFault e2 UserUpdate = storageFault e1 UserUpdate \<longrightarrow>
            users (snd (webhook e2 req (snd (webhook e1 req s)))) = users (snd (webhook e1 req s)))
       \<and> (\<forall>sub. subscriptionsRetrieve e2 (session_subscription sess) = Inr sub
          \<and> storageFault e2 UserUpdate = None \<longrightarrow>
            users (snd (webhook e2 req (snd (webhook e1 req s)))) = users (snd (webhook e2 req s)))
       \<and> usage (snd (webhook e2 req (snd (webhook e1 req s)))) = usage s
       \<and> apiCalls (snd (webhook e2 req (snd (webhook e1 req s)))) = apiCalls s"
proof (intro conjI impI allI)
  assume same: "subscriptionsRetrieve e2 (session_subscription sess) =
            subscriptionsRetrieve e1 (session_subscription sess)
          \<and> storageFault e2 UserUpdate = storageFault e1 UserUpdate"
  then have "users (snd (handleCheckoutCompleted e2 sess (snd (handleCheckoutCompleted e1 sess s)))) =
      users (snd (handleCheckoutCompleted e1 sess (snd (handleCheckoutCompleted e1 sess s))))"
    by (intro handleCheckoutCompleted_same_answers) simp_all
  with assms show "users (snd (webhook e2 req (snd (webhook e1 req s)))) =
      users (snd (webhook e1 req s))"
    by (simp add: webhook_snd handleCheckoutCompleted_twice)
next
  fix sub
  assume "subscriptionsRetrieve e2 (session_subscription sess) = Inr sub
          \<and> storageFault e2 UserUpdate = None"
  then have "users (snd (handleCheckoutCompleted e2 sess (snd (handleCheckoutCompleted e1 sess s)))) =
      users (snd (handleCheckoutCompleted e2 sess s))"
    by (intro handleCheckoutCompleted_overwrites [of e2 sess sub]) simp_all
  with assms show "users (snd (webhook e2 req (snd (webhook e1 req s)))) =
      users (snd (webhook e2 req s))"
    by (simp add: webhook_snd)
next
  from assms show "usage (snd (webhook e2 req (snd (webhook e1 req s)))) = usage s"
    by (simp add: webhook_snd)
next
  from assms show "apiCalls (snd (webhook e2 req (snd (webhook e1 req s)))) = apiCalls s"
    by (simp add: webhook_snd)
qed

theorem checkout_completed_idempotent_witness:
  "users (snd (webhook (deliveringEnv (CheckoutSessionCompleted exampleSession)) signedRequest
       (snd (webhook (deliveringEnv (CheckoutSessionCompleted exampleSession)) signedRequest
          (exampleStore exampleUser 3))))) =
     [exampleUser\<lparr>subscriptionPlan := ''basic'', subscriptionStatus := ''active'',
                  subscriptionExpiresAt := Some 1702592000000,
                  stripeSubscriptionId := Some ''sub_1''\<rparr>]
   \<and> users (snd (webhook (renewedEnv (CheckoutSessionCompleted exampleSession)) signedRequest
       (snd (webhook (deliveringEnv (CheckoutSessionCompleted exampleSession)) signedRequest
          (exampleStore exampleUser 3))))) =
     [exampleUser\<lparr>subscriptionPlan := ''basic'', subscriptionStatus := ''active'',
                  subscriptionExpiresAt := Some 1705270400000,
                  stripeSubscriptionId := Some ''sub_1''\<rparr>]
   \<and> usage (snd (webhook (renewedEnv (CheckoutSessionCompleted exampleSession)) signedRequest
       (snd (webhook (deliveringEnv (CheckoutSessionCompleted exampleSession)) signedRequest
          (exampleStore exampleUser 3))))) (''u1'', 10, 2023) = Some 3"
proof -
  let ?e1 = "deliveringEnv (CheckoutSessionCompleted exampleSession)"
  let ?e2 = "renewedEnv (CheckoutSessionCompleted exampleSession)"
  have first: "users (snd (webhook ?e1 signedRequest (exampleStore exampleUser 3))) =
     [exampleUser\<lparr>subscriptionPlan := ''basic'', subscriptionStatus := ''active'',
                  subscriptionExpiresAt := Some 1702592000000,
                  stripeSubscriptionId := Some ''sub_1''\<rparr>]"
    by (simp add: webhook_snd handleCheckoutCompleted_users exampleSession_def
        exampleStore_def exampleUser_def exampleSubscription_def)
  have second: "users (snd (webhook ?e2 signedRequest (exampleStore exampleUser 3))) =
     [exampleUser\<lparr>subscriptionPlan := ''basic'', subscriptionStatus := ''active'',
                  subscriptionExpiresAt := Some 1705270400000,
                  stripeSubscriptionId := Some ''sub_1''\<rparr>]"
    by (simp add: webhook_snd handleCheckoutCompleted_users exampleSession_def
        exampleStore_def exampleUser_def exampleSubscription_def laterSubscription_def)
  have sid: "session_subscription exampleSession = ''sub_1''"
    by (simp add: exampleSession_def)
  have table: "usage (exampleStore exampleUser 3) (''u1'', 10, 2023) = Some 3"
    by (simp add: exampleStore_def exampleUser_def)
  from checkout_completed_idempotent [of ?e1 signedRequest exampleSession ?e1
      "exampleStore exampleUser 3"] first sid
  have a: "users (snd (webhook ?e1 signedRequest
       (snd (webhook ?e1 signedRequest (exampleStore exampleUser 3))))) =
     [exampleUser\<lparr>subscriptionPlan := ''basic'', subscriptionStatus := ''active'',
                  subscriptionExpiresAt := Some 1702592000000,
                  stripeSubscriptionId := Some ''sub_1''\<rparr>]"
    by simp
  from checkout_completed_idempotent [of ?e1 signedRequest exampleSession ?e2
      "exampleStore exampleUser 3"] second sid table
  have b: "users (snd (webhook ?e2 signedRequest
       (snd (webhook ?e1 signedRequest (exampleStore exampleUser 3))))) =
     [exampleUser\<lparr>subscriptionPlan := ''basic'', subscriptionStatus := ''active'',
                  subscriptionExpiresAt := Some 1705270400000,
                  stripeSubscriptionId := Some ''sub_1''\<rparr>]"
    and c: "usage (snd (webhook ?e2 signedRequest
       (snd (webhook ?e1 signedRequest (exampleStore exampleUser 3))))) (''u1'', 10, 2023) = Some 3"
    by simp_all
  from a b c show ?thesis by simp
qed

lemma find_Some_member: "find p xs = Some u \<Longrightarrow> u \<in> set xs"
  by (induction xs) (auto split: if_splits)

lemma find_Some_user:
  assumes "find p xs = Some u"
  shows "find (\<lambda>x. user_id x = user_id u) xs \<noteq> None"
  using find_Some_member [OF assms] by (auto simp add: find_None_iff)

lemma userOfSubscription_found:
  assumes "customersRetrieve e (customer sub) = Inr cust"
    and "storageFault e UserFindFirst = None"
    and "find (\<lambda>x. stripeCustomerId x = Some (customer_id cust)) (users s) = Some u"
  shows "userOfSubscription e sub s =
           (Inr (Some u), logged UserFindFirst (logged StripeCustomersRetrieve s))"
  using assms
  by (simp add: userOfSubscription_def stripe_customers_retrieve_def user_findFirst_def)

lemma user_update_done:
  assumes "storageFault e UserUpdate = None"
    and "find (\<lambda>x. user_id x = uid) (users s) \<noteq> None"
  shows "user_update e uid f s =
           (Inr (), logged UserUpdate
                      (s\<lparr>users := map (\<lambda>x. if user_id x = uid then f x else x) (users s)\<rparr>))"
  using assms by (auto simp add: user_update_def split: option.splits)

text \<open>
  Claim C7. An \<open>invoice.payment_failed\<close> event whose invoice names a subscription,
  whose subscription and customer Stripe returns, and whose customer id is that of a
  local user, is acknowledged, and the user rows afterwards are the rows before with the
  status of that user set to \<open>past_due\<close>: the expiry, plan and provider subscription
  id columns are the same in every row, and the other tables are not touched.
\<close>

theorem payment_failed_sets_past_due:
  assumes "constructEvent e (rawBody req) (stripeSignature req) (webhookSecret e) =
             Inr (InvoicePaymentFailed invoice)"
    and "subscriptionOfInvoice invoice = Some sid"
    and "subscriptionsRetrieve e sid = Inr sub"
    and "customersRetrieve e (customer sub) = Inr cust"
    and "storageFault e UserFindFirst = None"
    and "find (\<lambda>x. stripeCustomerId x = Some (customer_id cust)) (users s) = Some u"
    and "storageFault e UserUpdate = None"
  shows "\<exists>s'. webhook e req s = (received, s')
         \<and> users s' = map (\<lambda>x. if user_id x = user_id u
                                then x\<lparr>subscriptionStatus := ''past_due''\<rparr> else x) (users s)
         \<and> u\<lparr>subscriptionStatus := ''past_due''\<rparr> \<in> set (users s')
         \<and> map subscriptionExpiresAt (users s') = map subscriptionExpiresAt (users s)
         \<and> map subscriptionPlan (users s') = map subscriptionPlan (users s)
         \<and> map stripeSubscriptionId (users s') = map stripeSubscriptionId (users s)
         \<and> map stripeCustomerId (users s') = map stripeCustomerId (users s)
         \<and> map user_id (users s') = map user_id (users s)
         \<and> usage s' = usage s \<and> apiCalls s' = apiCalls s"
proof -
  let ?s2 = "logged UserFindFirst (logged StripeCustomersRetrieve
               (logged StripeSubscriptionsRetrieve s))"
  let ?g = "\<lambda>x. if user_id x = user_id u then x\<lparr>subscriptionStatus := ''past_due''\<rparr> else x"
  have found: "userOfSubscription e sub (logged StripeSubscriptionsRetrieve s) =
      (Inr (Some u), ?s2)"
    using assms(4,5,6) by (simp add: userOfSubscription_found)
  have "find (\<lambda>x. user_id x = user_id u) (users ?s2) \<noteq> None"
    using find_Some_user [OF assms(6)] by simp
  from user_update_done [OF assms(7) this]
  have upd: "user_update e (user_id u) (\<lambda>x. x\<lparr>subscriptionStatus := ''past_due''\<rparr>) ?s2 =
      (Inr (), logged UserUpdate (?s2\<lparr>users := map ?g (users ?s2)\<rparr>))" .
  have h: "handlePaymentFailed e invoice s =
      (Inr (), logged UserUpdate (?s2\<lparr>users := map ?g (users ?s2)\<rparr>))"
    using assms(2,3) found upd
    by (simp add: handlePaymentFailed_def stripe_subscriptions_retrieve_def)
  have member: "u \<in> set (users s)"
    using assms(6) by (rule find_Some_member)
  then have "?g u \<in> set (map ?g (users s))" by (rule imageI [of u "set (users s)" ?g, folded set_map])
  then have inrows: "u\<lparr>subscriptionStatus := ''past_due''\<rparr> \<in> set (map ?g (users s))" by simp
  have cols: "map subscriptionExpiresAt (map ?g (users s)) = map subscriptionExpiresAt (users s)"
    "map subscriptionPlan (map ?g (users s)) = map subscriptionPlan (users s)"
    "map stripeSubscriptionId (map ?g (users s)) = map stripeSubscriptionId (users s)"
    "map stripeCustomerId (map ?g (users s)) = map stripeCustomerId (users s)"
    "map user_id (map ?g (users s)) = map user_id (users s)"
    by simp_all
  from h assms(1) inrows cols show ?thesis
    by (simp add: webhook_def del: map_map)
qed

lemma paidUser_found:
  "find (\<lambda>x. stripeCustomerId x = Some ''cus_1'') (users (exampleStore paidUser n)) = Some paidUser"
  by (simp add: exampleStore_def paidUser_def exampleUser_def)

theorem payment_failed_sets_past_due_witness:
  "\<exists>s'. webhook (deliveringEnv (InvoicePaymentFailed \<lparr>invoice_subscription = Some ''sub_1''\<rparr>))
           signedRequest (exampleStore paidUser 3) = (received, s')
      \<and> users s' = [paidUser\<lparr>subscriptionStatus := ''past_due''\<rparr>]
      \<and> map subscriptionExpiresAt (users s') = [Some 1702592000000]"
proof -
  let ?e = "deliveringEnv (InvoicePaymentFailed \<lparr>invoice_subscription = Some ''sub_1''\<rparr>)"
  have inv: "subscriptionOfInvoice \<lparr>invoice_subscription = Some ''sub_1''\<rparr> = Some ''sub_1''"
    by (simp add: subscriptionOfInvoice_def)
  have cust: "customersRetrieve ?e (customer exampleSubscription) = Inr \<lparr>customer_id = ''cus_1''\<rparr>"
    by (simp add: exampleSubscription_def)
  have found: "find (\<lambda>x. stripeCustomerId x = Some (customer_id \<lparr>customer_id = ''cus_1''\<rparr>))
      (users (exampleStore paidUser 3)) = Some paidUser"
    by (simp add: paidUser_found)
  from payment_failed_sets_past_due [of ?e signedRequest "\<lparr>invoice_subscription = Some ''sub_1''\<rparr>"
      "''sub_1''" exampleSubscription "\<lparr>customer_id = ''cus_1''\<rparr>" "exampleStore paidUser 3"
      paidUser, OF _ inv _ cust _ found]
  obtain s' where "webhook ?e signedRequest (exampleStore paidUser 3) = (received, s')"
    and "users s' = map (\<lambda>x. if user_id x = user_id paidUser
                                then x\<lparr>subscriptionStatus := ''past_due''\<rparr> else x)
                      (users (exampleStore paidUser 3))"
    and "map subscriptionExpiresAt (users s') =
         map subscriptionExpiresAt (users (exampleStore paidUser 3))"
    by auto
  then show ?thesis
    by (simp add: exampleStore_def paidUser_def exampleUser_def)
qed

text \<open>
  Claim C8. A \<open>customer.subscription.deleted\<close> event whose customer Stripe returns and
  whose customer id is that of a local user is acknowledged, and the user rows afterwards
  are the rows before with that user's plan set to \<open>free\<close>, status to \<open>cancelled\<close>,
  expiry to the handler's clock reading, and provider subscription id to null.
\<close>

theorem subscription_deleted_reverts_to_free:
  assumes "constructEvent e (rawBody req) (stripeSignature req) (webhookSecret e) =
             Inr (CustomerSubscriptionDeleted sub)"
    and "customersRetrieve e (customer sub) = Inr cust"
    and "storageFault e UserFindFirst = None"
    and "find (\<lambda>x. stripeCustomerId x = Some (customer_id cust)) (users s) = Some u"
    and "storageFault e UserUpdate = None"
  shows "\<exists>s'. webhook e req s = (received, s')
         \<and> users s' =
             map (\<lambda>x. if user_id x = user_id u
                       then x\<lparr>subscriptionPlan := ''free'', subscriptionStatus := ''cancelled'',
                              subscriptionExpiresAt := Some (webhookNow e),
                              stripeSubscriptionId := None\<rparr>
                       else x) (users s)
         \<and> u\<lparr>subscriptionPlan := ''free'', subscriptionStatus := ''cancelled'',
              subscriptionExpiresAt := Some (webhookNow e), stripeSubscriptionId := None\<rparr>
             \<in> set (users s')
         \<and> usage s' = usage s \<and> apiCalls s' = apiCalls s"
proof -
  let ?s1 = "logged UserFindFirst (logged StripeCustomersRetrieve s)"
  let ?f = "\<lambda>x. x\<lparr>subscriptionPlan := ''free'', subscriptionStatus := ''cancelled'',
                    subscriptionExpiresAt := Some (webhookNow e), stripeSubscriptionId := None\<rparr>"
  let ?g = "\<lambda>x. if user_id x = user_id u then ?f x else x"
  have found: "userOfSubscription e sub s = (Inr (Some u), ?s1)"
    using assms(2,3,4) by (simp add: userOfSubscription_found)
  have "find (\<lambda>x. user_id x = user_id u) (users ?s1) \<noteq> None"
    using find_Some_user [OF assms(4)] by simp
  from user_update_done [OF assms(5) this]
  have upd: "user_update e (user_id u) ?f ?s1 =
      (Inr (), logged UserUpdate (?s1\<lparr>users := map ?g (users ?s1)\<rparr>))" .
  have h: "handleSubscriptionDeleted e sub s =
      (Inr (), logged UserUpdate (?s1\<lparr>users := map ?g (users ?s1)\<rparr>))"
    using found upd by (simp add: handleSubscriptionDeleted_def)
  have "u \<in> set (users s)"
    using assms(4) by (rule find_Some_member)
  then have "?g u \<in> set (map ?g (users s))"
    by (rule imageI [of u "set (users s)" ?g, folded set_map])
  then have inrows: "?f u \<in> set (map ?g (users s))" by simp
  from h assms(1) inrows show ?thesis
    by (simp add: webhook_def)
qed

theorem subscription_deleted_reverts_to_free_witness:
  "\<exists>s'. webhook (deliveringEnv (CustomerSubscriptionDeleted exampleSubscription))
           signedRequest (exampleStore paidUser 3) = (received, s')
      \<and> users s' =
          [paidUser\<lparr>subscriptionPlan := ''free'', subscriptionStatus := ''cancelled'',
                    subscriptionExpiresAt := Some 1700000000000,
                    stripeSubscriptionId := None\<rparr>]"
proof -
  let ?e = "deliveringEnv (CustomerSubscriptionDeleted exampleSubscription)"
  have cust: "customersRetrieve ?e (customer exampleSubscription) = Inr \<lparr>customer_id = ''cus_1''\<rparr>"
    by (simp add: exampleSubscription_def)
  have found: "find (\<lambda>x. stripeCustomerId x = Some (customer_id \<lparr>customer_id = ''cus_1''\<rparr>))
      (users (exampleStore paidUser 3)) = Some paidUser"
    by (simp add: paidUser_found)
  from subscription_deleted_reverts_to_free [of ?e signedRequest exampleSubscription
      "\<lparr>customer_id = ''cus_1''\<rparr>" "exampleStore paidUser 3" paidUser, OF _ cust _ found]
  obtain s' where "webhook ?e signedRequest (exampleStore paidUser 3) = (received, s')"
    and "users s' =
             map (\<lambda>x. if user_id x = user_id paidUser
                       then x\<lparr>subscriptionPlan := ''free'', subscriptionStatus := ''cancelled'',
                              subscriptionExpiresAt := Some (webhookNow ?e),
                              stripeSubscriptionId := None\<rparr>
                       else x) (users (exampleStore paidUser 3))"
    by auto
  then show ?thesis
    by (simp add: exampleStore_def paidUser_def exampleUser_def)
qed

end
